theory Spec2Isabelle
  imports Main "HOL-Library.AList"
begin

section \<open>A Game Of Lore: the state record and the narrative engine of GOL.py\<close>

text \<open>
  The development embeds \<^verbatim>\<open>StoryState\<close> (a dataclass) and \<^verbatim>\<open>StoryEngine\<close> of
  \<^verbatim>\<open>src/GOL.py\<close>. Python's unbounded integers are \<open>int\<close>. A Python \<^verbatim>\<open>str\<close> is a
  \<open>string\<close> holding its UTF-8 bytes: the two characters of the source outside ASCII, the
  em dash U+2014 and the ellipsis U+2026, are the byte sequences \<open>emdash\<close> and \<open>hellip\<close>.
  A Python \<^verbatim>\<open>dict\<close> is an association list in insertion order: a lookup is \<open>map_of\<close>,
  an assignment \<^verbatim>\<open>d[k] = v\<close> is \<open>AList.update\<close> (the key keeps its place, a new key goes
  to the end). Mutation of the state object is explicit state passing.
\<close>

subsection \<open>Errors, flag values and dictionaries\<close>

datatype error = IndexError | TypeError | ValueError

text \<open>
  \<^verbatim>\<open>flags\<close> is annotated \<^verbatim>\<open>Dict[str, bool]\<close>, yet the engine stores the demon lord's name in
  it, a \<^verbatim>\<open>str\<close>. A flag value is therefore a boolean or a string; \<open>truthy\<close> is Python's
  truth test on it and \<open>py_str\<close> is what an f-string or \<^verbatim>\<open>str.format\<close> prints for it.
\<close>

datatype flag = FBool bool | FStr string

fun truthy :: "flag \<Rightarrow> bool" where
  "truthy (FBool b) = b"
| "truthy (FStr s) = (s \<noteq> [])"

fun py_str :: "flag \<Rightarrow> string" where
  "py_str (FBool b) = (if b then ''True'' else ''False'')"
| "py_str (FStr s) = s"

definition dict_get :: "('k \<times> 'v) list \<Rightarrow> 'k \<Rightarrow> 'v \<Rightarrow> 'v" where
  \<comment> \<open>\<^verbatim>\<open>d.get(k, dflt)\<close>\<close>
  "dict_get d k dflt = (case map_of d k of None \<Rightarrow> dflt | Some v \<Rightarrow> v)"

definition setdefault :: "'k \<Rightarrow> 'v \<Rightarrow> ('k \<times> 'v) list \<Rightarrow> ('k \<times> 'v) list" where
  \<comment> \<open>\<^verbatim>\<open>d.setdefault(k, v)\<close>, the dictionary afterwards\<close>
  "setdefault k v d = (case map_of d k of None \<Rightarrow> d @ [(k, v)] | Some _ \<Rightarrow> d)"

definition dict_set :: "'k \<Rightarrow> 'v \<Rightarrow> ('k \<times> 'v) list \<Rightarrow> ('k \<times> 'v) list" where
  \<comment> \<open>\<^verbatim>\<open>d[k] = v\<close>, the dictionary afterwards\<close>
  "dict_set k v d = AList.update k v d"

definition fromkeys :: "'k list \<Rightarrow> ('k \<times> unit) list" where
  \<comment> \<open>\<^verbatim>\<open>dict.fromkeys(xs)\<close>: every key once, at the place of its first occurrence\<close>
  "fromkeys xs = fold (\<lambda>k d. dict_set k () d) xs []"

definition emdash :: string where
  "emdash = [CHR 0xE2, CHR 0x80, CHR 0x94]"

definition hellip :: string where
  "hellip = [CHR 0xE2, CHR 0x80, CHR 0xA6]"

subsection \<open>The state record\<close>

record StoryState =
  name :: string
  "chapter" :: int
  location :: string
  health :: int
  power :: int
  morality :: int
  notoriety :: int
  trust_demon_lord :: int
  bond_demon_lord :: int
  inventory :: "string list"
  flags :: "(string \<times> flag) list"
  history :: "string list"
  seed :: int

definition StoryState_default :: StoryState where
  \<comment> \<open>\<^verbatim>\<open>StoryState()\<close>\<close>
  "StoryState_default =
     \<lparr>name = ''Nameless'', chapter = 0, location = ''Demon Forest'', health = 80,
      power = 20, morality = 0, notoriety = 0, trust_demon_lord = 10,
      bond_demon_lord = 0, inventory = [''Torn Cloak'', ''Rusty Sword''], flags = [],
      history = [], seed = 0\<rparr>"

definition new_game :: "string \<Rightarrow> int \<Rightarrow> StoryState" where
  \<comment> \<open>the state \<^verbatim>\<open>new_game\<close> returns, for the name read and the seed computed there
      (an empty name has already been replaced by \<^verbatim>\<open>"Nameless"\<close>)\<close>
  "new_game nm sd =
     StoryState_default
       \<lparr>name := nm, seed := sd,
        flags := [(''betrayed'', FBool True), (''met_demon_lord'', FBool True),
                  (''allied'', FBool False), (''seeking_truth'', FBool True)]\<rparr>"

subsection \<open>The pseudo-random source\<close>

text \<open>
  \<^verbatim>\<open>random.Random\<close> belongs to Python's library, not to this program. The engine is
  therefore parameterised by the generator: a state type \<open>'g\<close> and the function
  \<open>rb g n\<close>, which stands for \<^verbatim>\<open>rng._randbelow(n)\<close> and returns the number drawn and the
  generator's next state. The library promises a number below \<open>n\<close>; \<open>rng_ok\<close> states
  that. \<^verbatim>\<open>rng.choice(seq)\<close> is \<^verbatim>\<open>seq[rng._randbelow(len(seq))]\<close> and raises
  \<^verbatim>\<open>IndexError\<close> on an empty sequence, as an index out of range does.
\<close>

type_synonym 'g randbelow = "'g \<Rightarrow> nat \<Rightarrow> nat \<times> 'g"

definition rng_ok :: "'g randbelow \<Rightarrow> bool" where
  "rng_ok rb = (\<forall>g n. 0 < n \<longrightarrow> fst (rb g n) < n)"

definition choice :: "'g randbelow \<Rightarrow> 'a list \<Rightarrow> 'g \<Rightarrow> error + 'a \<times> 'g" where
  "choice rb xs g =
     (if xs = [] then Inl IndexError
      else (let (i, g') = rb g (length xs)
            in if i < length xs then Inr (xs ! i, g') else Inl IndexError))"

subsection \<open>\<^verbatim>\<open>StoryEngine.clamp\<close>\<close>

definition clamp :: "int \<Rightarrow> int \<Rightarrow> int \<Rightarrow> int" where
  "clamp v lo hi = max lo (min hi v)"

subsection \<open>Scene texts, locations and choice lists\<close>

definition loc_intro_scene :: string where
  \<open>loc_intro_scene = ''Demon Forest '' @ emdash @ '' Thornsfall Edge''\<close>

definition text_intro_scene :: "string \<Rightarrow> string" where
  \<open>text_intro_scene dl_name =
     ''You awaken in briars and ash. The kingdom you died to protect has '' @
     ''cast you out.\<newline>Branches claw your cloak as you stumble through the '' @
     ''Demon Forest. A presence watches.\<newline>\<newline>She steps from the gloom: the '' @
     ''Demon Lord, a girl with eyes like eclipsed moons.\<newline>"I am '' @ dl_name @
     ''. Your light reeks of betrayal," she says. "Why should I spare you?"''\<close>

definition choices_intro_scene :: "(string \<times> string) list" where
  \<open>choices_intro_scene =
    [(''Plead your case: you were framed and seek only the truth.'',
      ''intro_plead''),
     (''Swear vengeance: you'll raze the kingdom that betrayed you.'',
      ''intro_vengeance''),
     (''Offer a pact: strength for strength'' @ emdash @ ''become uneasy allies.'',
      ''intro_pact''),
     (''Draw steel: if she wants blood, she'll earn it.'',
      ''intro_fight'')]\<close>

definition loc_scene_tense_camp :: string where
  \<open>loc_scene_tense_camp = ''Forest Camp '' @ emdash @ '' Ember Clearing''\<close>

definition text_scene_tense_camp :: "string \<Rightarrow> string" where
  \<open>text_scene_tense_camp dl =
     ''A small fire sputters beneath twisted pines. '' @ dl @
     '' watches you from across the flames.\<newline>Trust flickers like kindling. '' @
     ''The forest listens.''\<close>

definition choices_scene_tense_camp :: "(string \<times> string) list" where
  \<open>choices_scene_tense_camp =
    [(''Share a painful memory to earn her empathy.'',
      ''camp_confide''),
     (''Hone your blade in silence; let actions speak.'',
      ''camp_silence''),
     (''Probe her motives'' @ emdash @ ''why rule the demons at all?'',
      ''camp_probe''),
     (''Scout the perimeter; danger stalks the dark.'',
      ''camp_scout'')]\<close>

definition loc_scene_training :: string where
  \<open>loc_scene_training = ''Obsidian Glade '' @ emdash @ '' Training Stones''\<close>

definition text_scene_training :: "string \<Rightarrow> string" where
  \<open>text_scene_training dl =
     ''In the Obsidian Glade, '' @ dl @
     '' tests you. Demonic sigils fracture the air.\<newline>Power strains your '' @
     ''scars as you push beyond mortal limits.''\<close>

definition choices_scene_training :: "string \<Rightarrow> (string \<times> string) list" where
  \<open>choices_scene_training dl =
    [(''Master a defensive ward to shield the weak.'',
      ''train_defense''),
     (''Channel wrath'' @ emdash @ ''strike harder, faster, crueler.'',
      ''train_wrath''),
     (''Synchronize with '' @ dl @ [CHR 0x27] @ ''s rhythm; trust the dance of blades.'',
      ''train_sync'')]\<close>

definition loc_scene_council :: string where
  \<open>loc_scene_council = ''Eclipse Hall '' @ emdash @ '' Council of Cinders''\<close>

definition text_scene_council :: "string \<Rightarrow> string" where
  \<open>text_scene_council dl =
     dl @ [CHR 0x27] @
     ''s lieutenants argue under lanterns filled with captured starlight.\<newline>War '' @
     ''or peace? Retaliation or secrecy? They seek your counsel.''\<close>

definition choices_scene_council :: "(string \<times> string) list" where
  \<open>choices_scene_council =
    [(''Advise diplomacy'' @ emdash @ ''seek proof of the kingdom's treachery.'',
      ''council_diplomacy''),
     (''Plan raids on corrupt nobles and supply lines.'',
      ''council_raids''),
     (''Propose a secret parley with a sympathetic hero.'',
      ''council_parley'')]\<close>

definition loc_scene_oath_bond :: string where
  \<open>loc_scene_oath_bond = ''Moonwell '' @ emdash @ '' Mirror of Vows''\<close>

definition text_scene_oath_bond :: "string \<Rightarrow> string" where
  \<open>text_scene_oath_bond dl =
     ''Beside the Moonwell, '' @ dl @ '' offers her hand. "We choose each other'' @ emdash @
     ''against crown and fate."\<newline>The water reflects futures you barely recognize.''\<close>

definition choices_scene_oath_bond :: "(string \<times> string) list" where
  \<open>choices_scene_oath_bond =
    [(''Swear an oath of alliance.'',
      ''oath_sworn''),
     (''Hesitate'' @ emdash @ ''the cost of vows is always hidden.'',
      ''oath_hesitate''),
     (''Refuse'' @ emdash @ ''freedom above all.'',
      ''oath_refuse'')]\<close>

definition loc_scene_spy_report :: string where
  \<open>loc_scene_spy_report = ''Shadespine '' @ emdash @ '' Scout's Path''\<close>

definition text_scene_spy_report :: string where
  \<open>text_scene_spy_report =
     ''A demon scout kneels, breathless: the kingdom moves hunters into '' @
     ''the forest.\<newline>They bear your crest'' @ emdash @
     ''bait for a public execution.''\<close>

definition choices_scene_spy_report :: "(string \<times> string) list" where
  \<open>choices_scene_spy_report =
    [(''Intercept and expose the ruse.'',
      ''spy_intercept''),
     (''Turn the ambush onto the hunters.'',
      ''spy_reverse''),
     (''Ignore; focus on power first.'',
      ''spy_ignore'')]\<close>

definition loc_scene_ambush :: string where
  \<open>loc_scene_ambush = ''Ravine Verge '' @ emdash @ '' Broken Bridge''\<close>

definition text_scene_ambush :: string where
  \<open>text_scene_ambush =
     ''You spot royal scouts across a broken bridge, whispering your name '' @
     ''like a curse.\<newline>Their signal mirrors glint. A choice, sharp as shale.''\<close>

definition choices_scene_ambush :: "(string \<times> string) list" where
  \<open>choices_scene_ambush =
    [(''Strike from shadow'' @ emdash @ ''no witnesses.'',
      ''ambush_shadow''),
     (''Seize a scout alive for information.'',
      ''ambush_capture''),
     (''Let them flee; plant fear and rumor.'',
      ''ambush_letgo'')]\<close>

definition loc_scene_rescue :: string where
  \<open>loc_scene_rescue = ''Cairn Road '' @ emdash @ '' Bleak Mile''\<close>

definition text_scene_rescue :: string where
  \<open>text_scene_rescue =
     ''A caravan of refugees stumbles under the weight of injustice. Bandits '' @
     ''circle.\<newline>You hear a child's cough beneath the wind.''\<close>

definition choices_scene_rescue :: "(string \<times> string) list" where
  \<open>choices_scene_rescue =
    [(''Shield the caravan; take the blows for them.'',
      ''rescue_shield''),
     (''Outwit the bandits with a ruse.'',
      ''rescue_ruse''),
     (''Walk away. Mercy is a luxury.'',
      ''rescue_walk'')]\<close>

definition loc_scene_grim_bargain :: string where
  \<open>loc_scene_grim_bargain = ''Thorn Altar '' @ emdash @ '' Price of Power''\<close>

definition text_scene_grim_bargain :: "string \<Rightarrow> string" where
  \<open>text_scene_grim_bargain dl =
     ''A thorned altar hums with forbidden strength. '' @ dl @ [CHR 0x27] @
     ''s gaze is unreadable.\<newline>The altar grants might'' @ hellip @
     '' and takes what you value most.''\<close>

definition choices_scene_grim_bargain :: "(string \<times> string) list" where
  \<open>choices_scene_grim_bargain =
    [(''Bleed for power: sacrifice a memory.'',
      ''bargain_memory''),
     (''Spare yourself'' @ emdash @ ''reject the altar.'',
      ''bargain_reject''),
     (''Offer the altar a token from your betrayers.'',
      ''bargain_token'')]\<close>

definition loc_scene_ruins :: string where
  \<open>loc_scene_ruins = ''Ancient Ruins '' @ emdash @ '' Vault of Mists''\<close>

definition text_scene_ruins :: string where
  \<open>text_scene_ruins =
     ''Fog curls around cracked archways. Glyphs speak of heroes who burned '' @
     ''their own ages ago.\<newline>A vault door breathes cold secrets.''\<close>

definition choices_scene_ruins :: "(string \<times> string) list" where
  \<open>choices_scene_ruins =
    [(''Study the glyphs for hidden history.'',
      ''ruins_study''),
     (''Force the vault'' @ emdash @ ''whatever lies within is yours.'',
      ''ruins_force''),
     (''Leave a mark: a promise to return stronger.'',
      ''ruins_mark'')]\<close>

definition loc_scene_wild_hunt :: string where
  \<open>loc_scene_wild_hunt = ''Night Plains '' @ emdash @ '' The Wild Hunt''\<close>

definition text_scene_wild_hunt :: string where
  \<open>text_scene_wild_hunt =
     ''Horns sound. Spectral riders rise like storm-surf, seeking a worthy '' @
     ''quarry.\<newline>They circle, inviting chase or challenge.''\<close>

definition choices_scene_wild_hunt :: "(string \<times> string) list" where
  \<open>choices_scene_wild_hunt =
    [(''Race with them; learn their paths.'',
      ''hunt_race''),
     (''Challenge the huntmaster to single combat.'',
      ''hunt_duel''),
     (''Hide and observe; knowledge first.'',
      ''hunt_hide'')]\<close>

definition loc_scene_whispers :: string where
  \<open>loc_scene_whispers = ''Whispering Trees '' @ emdash @ '' Root of Echoes''\<close>

definition text_scene_whispers :: string where
  \<open>text_scene_whispers =
     ''Leaves speak in voices you once trusted. They tell different truths '' @
     ''now.\<newline>One whisper carries the name of a hero who betrayed you.''\<close>

definition choices_scene_whispers :: "string \<Rightarrow> (string \<times> string) list" where
  \<open>choices_scene_whispers dl =
    [(''Follow the whisper to its source.'',
      ''whisper_follow''),
     (''Silence the voices with a ward.'',
      ''whisper_ward''),
     (''Ask '' @ dl @ '' to listen with you.'',
      ''whisper_together'')]\<close>

subsection \<open>Narrations of the choices and of the endings\<close>

definition narr_intro_plead :: "string \<Rightarrow> string" where
  \<open>narr_intro_plead dl =
     ''You speak plainly of betrayal. '' @ dl @
     '' studies the cracks in your voice and lowers her hand. "Truth cuts '' @
     ''deeper than any blade," she says.''\<close>

definition narr_intro_vengeance :: "string \<Rightarrow> string" where
  \<open>narr_intro_vengeance dl =
     ''Vengeance burns like pitch. '' @ dl @ '' smiles'' @ emdash @
     ''a small, dangerous thing. "Then we understand each other."''\<close>

definition narr_intro_pact :: "string \<Rightarrow> string" where
  \<open>narr_intro_pact dl =
     ''You offer terms, not supplication. '' @ dl @
     '' clasps your wrist. "We hunt different prey'' @ emdash @
     ''but we can share the trail."''\<close>

definition narr_intro_fight :: "string \<Rightarrow> string" where
  \<open>narr_intro_fight dl =
     ''Steel rings. You draw blood and pay in kind. '' @ dl @
     '' laughs like thunder far away. "Live, then. Earn the right to stand."''\<close>

definition narr_camp_confide :: "string \<Rightarrow> string" where
  \<open>narr_camp_confide dl =
     ''Your memory is a splinter. You let it out. '' @ dl @ '' listens without mercy'' @
     emdash @ ''without judgment. The fire warms, just a little.''\<close>

definition narr_camp_silence :: string where
  \<open>narr_camp_silence =
     ''You sharpen steel and silence. Sparks chart constellations no map '' @ ''has named.''\<close>

definition narr_camp_probe :: "string \<Rightarrow> string" where
  \<open>narr_camp_probe dl =
     ''Questions are knives. '' @ dl @
     '' answers some and turns aside others. You learn enough to be wary'' @ emdash @
     ''and useful.''\<close>

definition narr_camp_scout :: string where
  \<open>narr_camp_scout =
     ''You pace the warding ring. Footprints. A bent reed. The forest is '' @
     ''a chessboard and you are learning the moves.''\<close>

definition narr_train_defense :: string where
  \<open>narr_train_defense =
     ''Your ward blooms like a quiet star. It holds when claws descend. '' @
     ''Somewhere, someone will live because of this.''\<close>

definition narr_train_wrath :: string where
  \<open>narr_train_wrath =
     ''You inhale the storm and exhale ruin. The stones remember your name '' @
     ''as a crack.''\<close>

definition narr_train_sync :: "string \<Rightarrow> string" where
  \<open>narr_train_sync dl =
     ''Step, strike, breathe'' @ emdash @ ''together. '' @ dl @ [CHR 0x27] @
     ''s motion becomes a language you begin to read.''\<close>

definition narr_council_diplomacy :: string where
  \<open>narr_council_diplomacy =
     ''You chart a path of proof and patience. The hall quiets; even war '' @ ''can listen.''\<close>

definition narr_council_raids :: string where
  \<open>narr_council_raids =
     ''Targets line the map like sins. You thread a needle through them '' @
     ''made of fire.''\<close>

definition narr_council_parley :: string where
  \<open>narr_council_parley =
     ''A secret parley'' @ emdash @ ''dangerous, delicate. If it holds, the story changes.''\<close>

definition narr_oath_sworn :: string where
  \<open>narr_oath_sworn =
     ''You swear by fang and star. The Moonwell seals the promise with '' @
     ''a chill that tastes like dawn.''\<close>

definition narr_oath_hesitate :: string where
  \<open>narr_oath_hesitate =
     ''You ask for time. The Moonwell reflects two strangers trying to '' @ ''be allies.''\<close>

definition narr_oath_refuse :: string where
  \<open>narr_oath_refuse =
     ''You step back from the brink. Freedom is a lonely country.''\<close>

definition narr_spy_intercept :: string where
  \<open>narr_spy_intercept =
     ''You unmask the trap and free the bait. Rumors begin to turn toward '' @ ''truth.''\<close>

definition narr_spy_reverse :: string where
  \<open>narr_spy_reverse =
     ''Hunters become the hunted. The forest keeps your secrets.''\<close>

definition narr_spy_ignore :: string where
  \<open>narr_spy_ignore =
     ''You let the game play on without you'' @ emdash @ ''for now.''\<close>

definition narr_ambush_shadow :: string where
  \<open>narr_ambush_shadow =
     ''No witnesses. No mercy. The bridge remembers only silence.''\<close>

definition narr_ambush_capture :: string where
  \<open>narr_ambush_capture =
     ''Under your blade, a scout chooses life'' @ emdash @
     ''and answers. Names spill like beads from a torn chain.''\<close>

definition narr_ambush_letgo :: string where
  \<open>narr_ambush_letgo =
     ''Mercy travels faster than hoofbeats. Fear travels faster still.''\<close>

definition narr_rescue_shield :: string where
  \<open>narr_rescue_shield =
     ''You take the blows others could not bear. A child's cough becomes '' @ ''a laugh.''\<close>

definition narr_rescue_ruse :: string where
  \<open>narr_rescue_ruse =
     ''Illusions, footprints, a staged cry'' @ emdash @
     ''bandits chase ghosts while the caravan slips free.''\<close>

definition narr_rescue_walk :: string where
  \<open>narr_rescue_walk =
     ''You turn away. The road learns your name without deciding if it '' @ ''loves you.''\<close>

definition narr_bargain_memory :: string where
  \<open>narr_bargain_memory =
     ''You give the altar a memory of home. Power rushes in to fill the '' @
     ''hollow it leaves.''\<close>

definition narr_bargain_reject :: string where
  \<open>narr_bargain_reject =
     ''You walk away from easy strength. The altar hums, disappointed.''\<close>

definition narr_bargain_token :: string where
  \<open>narr_bargain_token =
     ''You place a betrayer's token on the altar. The thorns drink deep '' @
     ''and answer with power.''\<close>

definition narr_ruins_study :: string where
  \<open>narr_ruins_study =
     ''Glyphs confess: heroes burned an age to keep a throne warm. Truth '' @
     ''is an ember you pocket.''\<close>

definition narr_ruins_force :: string where
  \<open>narr_ruins_force =
     ''The vault yields with a scream of stone. Inside waits a relic that '' @
     ''knows your pulse.''\<close>

definition narr_ruins_mark :: string where
  \<open>narr_ruins_mark =
     ''You leave a mark, not a wound. Even ruins deserve a future.''\<close>

definition narr_hunt_race :: string where
  \<open>narr_hunt_race =
     ''You run with ghosts until your lungs are bells. They teach you shortcuts '' @
     ''through moonlight.''\<close>

definition narr_hunt_duel :: string where
  \<open>narr_hunt_duel =
     ''Steel rings against antler and oath. You win a scar and a salute.''\<close>

definition narr_hunt_hide :: string where
  \<open>narr_hunt_hide =
     ''You watch unseen as the Wild Hunt redraws the night's borders.''\<close>

definition narr_whisper_follow :: string where
  \<open>narr_whisper_follow =
     ''The whisper leads to a sigil cut in bark: a hero's mark. The trail '' @
     ''warms under your gaze.''\<close>

definition narr_whisper_ward :: string where
  \<open>narr_whisper_ward =
     ''You hush the forest with a ward that tastes like peppermint and '' @ ''thunder.''\<close>

definition narr_whisper_together :: "string \<Rightarrow> string" where
  \<open>narr_whisper_together dl =
     ''You and '' @ dl @ '' listen as one. The voices braid into a map only two can read.''\<close>

definition narr_unknown :: string where
  \<open>narr_unknown =
     ''Time moves, yet nothing decisive happens. Perhaps the next choice '' @
     ''will cut deeper.''\<close>

definition ending_death :: string where
  \<open>ending_death = ''Your story ends beneath black boughs. Even the forest bows its head.''\<close>

definition ending_alliance :: "string \<Rightarrow> string" where
  \<open>ending_alliance dl =
     ''Side by side with '' @ dl @
     '', you confront the crown. Proof and power make a quiet revolution.\<newline>The '' @
     ''heroes who betrayed you kneel, not to force, but to truth. The forest '' @
     ''grows less afraid.''\<close>

definition ending_sovereign :: string where
  \<open>ending_sovereign =
     ''Feared and unstoppable, you become a storm that keeps its own counsel. '' @
     ''Kings learn to read the sky.''\<close>

definition ending_guardian :: string where
  \<open>ending_guardian =
     ''You choose to guard rather than rule. Roads are safer where your '' @
     ''shadow falls.''\<close>

definition ending_exile :: string where
  \<open>ending_exile =
     ''Years pass like leaves. Your name fades, but the people you saved '' @
     ''remember.\<newline>Not all legends need thrones.''\<close>

subsection \<open>Scene procedures\<close>

type_synonym scene = "string \<times> (string \<times> string) list"

definition demon_lord :: "StoryState \<Rightarrow> string" where
  \<comment> \<open>\<^verbatim>\<open>st.flags.get("demon_lord_name", "the Demon Lord")\<close>, as it is printed\<close>
  "demon_lord st = py_str (dict_get (flags st) ''demon_lord_name'' (FStr ''the Demon Lord''))"

definition demon_names :: "string list" where
  "demon_names = [''Nyx'', ''Velaria'', ''Lilithe'', ''Morrigan'', ''Eresh'', ''Seraphine'',
                  ''Astariel'', ''Noctra'']"

definition intro_history :: string where
  "intro_history =
     ''Banished to the Demon Forest after betrayal by the kingdom and fellow heroes.''"

definition intro_scene ::
  "'g randbelow \<Rightarrow> StoryState \<Rightarrow> 'g \<Rightarrow> error + scene \<times> StoryState \<times> 'g" where
  "intro_scene rb st g =
     (let st = st\<lparr>chapter := 1\<rparr>;
          st = st\<lparr>location := loc_intro_scene\<rparr>;
          st = st\<lparr>flags := setdefault ''betrayed'' (FBool True) (flags st)\<rparr>;
          st = st\<lparr>flags := setdefault ''met_demon_lord'' (FBool True) (flags st)\<rparr>;
          st = st\<lparr>flags := setdefault ''allied'' (FBool False) (flags st)\<rparr>;
          st = st\<lparr>flags := setdefault ''vow_revenge'' (FBool False) (flags st)\<rparr>;
          st = st\<lparr>flags := setdefault ''seeking_truth'' (FBool True) (flags st)\<rparr>;
          st = st\<lparr>history := history st @ [intro_history]\<rparr>;
          drawn = (case choice rb demon_names g of
                     Inl e \<Rightarrow> Inl e
                   | Inr (n, g') \<Rightarrow> Inr (FStr n, g'));
          named = (case map_of (flags st) ''demon_lord_name'' of
                     None \<Rightarrow> drawn
                   | Some v \<Rightarrow> if truthy v then Inr (v, g) else drawn)
      in case named of
           Inl e \<Rightarrow> Inl e
         | Inr (dl_name, g') \<Rightarrow>
             (let st = st\<lparr>flags := dict_set ''demon_lord_name'' dl_name (flags st)\<rparr>
              in Inr ((text_intro_scene (py_str dl_name), choices_intro_scene), st, g')))"

definition scene_tense_camp :: "StoryState \<Rightarrow> scene \<times> StoryState" where
  "scene_tense_camp st =
     (let dl = demon_lord st;
          st = st\<lparr>location := loc_scene_tense_camp\<rparr>
      in ((text_scene_tense_camp dl, choices_scene_tense_camp), st))"

definition scene_training :: "StoryState \<Rightarrow> scene \<times> StoryState" where
  "scene_training st =
     (let dl = demon_lord st;
          st = st\<lparr>location := loc_scene_training\<rparr>
      in ((text_scene_training dl, choices_scene_training dl), st))"

definition scene_council :: "StoryState \<Rightarrow> scene \<times> StoryState" where
  "scene_council st =
     (let dl = demon_lord st;
          st = st\<lparr>location := loc_scene_council\<rparr>
      in ((text_scene_council dl, choices_scene_council), st))"

definition scene_oath_bond :: "StoryState \<Rightarrow> scene \<times> StoryState" where
  "scene_oath_bond st =
     (let dl = demon_lord st;
          st = st\<lparr>location := loc_scene_oath_bond\<rparr>
      in ((text_scene_oath_bond dl, choices_scene_oath_bond), st))"

definition scene_spy_report :: "StoryState \<Rightarrow> scene \<times> StoryState" where
  "scene_spy_report st =
     (let st = st\<lparr>location := loc_scene_spy_report\<rparr>
      in ((text_scene_spy_report, choices_scene_spy_report), st))"

definition scene_ambush :: "StoryState \<Rightarrow> scene \<times> StoryState" where
  "scene_ambush st =
     (let st = st\<lparr>location := loc_scene_ambush\<rparr>
      in ((text_scene_ambush, choices_scene_ambush), st))"

definition scene_rescue :: "StoryState \<Rightarrow> scene \<times> StoryState" where
  "scene_rescue st =
     (let st = st\<lparr>location := loc_scene_rescue\<rparr>
      in ((text_scene_rescue, choices_scene_rescue), st))"

definition scene_grim_bargain :: "StoryState \<Rightarrow> scene \<times> StoryState" where
  "scene_grim_bargain st =
     (let dl = demon_lord st;
          st = st\<lparr>location := loc_scene_grim_bargain\<rparr>
      in ((text_scene_grim_bargain dl, choices_scene_grim_bargain), st))"

definition scene_ruins :: "StoryState \<Rightarrow> scene \<times> StoryState" where
  "scene_ruins st =
     (let st = st\<lparr>location := loc_scene_ruins\<rparr>
      in ((text_scene_ruins, choices_scene_ruins), st))"

definition scene_wild_hunt :: "StoryState \<Rightarrow> scene \<times> StoryState" where
  "scene_wild_hunt st =
     (let st = st\<lparr>location := loc_scene_wild_hunt\<rparr>
      in ((text_scene_wild_hunt, choices_scene_wild_hunt), st))"

definition scene_whispers :: "StoryState \<Rightarrow> scene \<times> StoryState" where
  "scene_whispers st =
     (let st = st\<lparr>location := loc_scene_whispers\<rparr>
      in ((text_scene_whispers, choices_scene_whispers (demon_lord st)), st))"

subsection \<open>\<^verbatim>\<open>StoryEngine.generate_scene\<close>\<close>

definition scene_archetypes :: "StoryState \<Rightarrow> string list" where
  \<comment> \<open>the list \<^verbatim>\<open>archetypes\<close> as it stands when the scene is drawn\<close>
  "scene_archetypes st =
     (let archetypes = [];
          archetypes =
            (if truthy (dict_get (flags st) ''met_demon_lord'' (FBool False)) then
               (let archetypes =
                      (if 60 \<le> trust_demon_lord st
                          \<and> \<not> truthy (dict_get (flags st) ''oath_bound'' (FBool False))
                       then archetypes @ [''oath_bond''] else archetypes)
                in if 30 \<le> trust_demon_lord st
                   then archetypes @ [''council'', ''training'']
                   else archetypes @ [''tense_camp''])
             else archetypes);
          archetypes =
            (if truthy (dict_get (flags st) ''vow_revenge'' (FBool False))
             then archetypes @ [''spy_report'', ''ambush_king_scouts''] else archetypes);
          archetypes =
            (if 40 \<le> morality st then archetypes @ [''rescue_travelers''] else archetypes);
          archetypes =
            (if morality st \<le> - 40 then archetypes @ [''grim_bargain''] else archetypes)
      in archetypes @ [''mystic_ruins'', ''wild_hunt'', ''whispering_trees''])"

definition dispatch :: "string \<Rightarrow> StoryState \<Rightarrow> scene \<times> StoryState" where
  \<comment> \<open>the chain of tests on \<^verbatim>\<open>chosen\<close>, with its generic fallback\<close>
  "dispatch chosen st =
     (if chosen = ''oath_bond'' then scene_oath_bond st
      else if chosen = ''council'' then scene_council st
      else if chosen = ''training'' then scene_training st
      else if chosen = ''tense_camp'' then scene_tense_camp st
      else if chosen = ''spy_report'' then scene_spy_report st
      else if chosen = ''ambush_king_scouts'' then scene_ambush st
      else if chosen = ''rescue_travelers'' then scene_rescue st
      else if chosen = ''grim_bargain'' then scene_grim_bargain st
      else if chosen = ''mystic_ruins'' then scene_ruins st
      else if chosen = ''wild_hunt'' then scene_wild_hunt st
      else if chosen = ''whispering_trees'' then scene_whispers st
      else scene_tense_camp st)"

definition generate_scene ::
  "'g randbelow \<Rightarrow> StoryState \<Rightarrow> 'g \<Rightarrow> error + scene \<times> StoryState \<times> 'g" where
  "generate_scene rb st g =
     (if chapter st = 0 then intro_scene rb st g
      else (case choice rb (scene_archetypes st) g of
              Inl e \<Rightarrow> Inl e
            | Inr (chosen, g') \<Rightarrow>
                (let (out, st') = dispatch chosen st in Inr (out, st', g'))))"

subsection \<open>\<^verbatim>\<open>StoryEngine.apply_choice\<close>\<close>

text \<open>
  The local helper \<^verbatim>\<open>mod(attr, delta, lo, hi)\<close> reads and writes an attribute by name;
  \<open>attr\<close> lists the five names it is called with.
\<close>

datatype attr = A_health | A_power | A_morality | A_notoriety | A_trust_demon_lord

fun getattr :: "StoryState \<Rightarrow> attr \<Rightarrow> int" where
  "getattr st A_health = health st"
| "getattr st A_power = power st"
| "getattr st A_morality = morality st"
| "getattr st A_notoriety = notoriety st"
| "getattr st A_trust_demon_lord = trust_demon_lord st"

fun setattr :: "StoryState \<Rightarrow> attr \<Rightarrow> int \<Rightarrow> StoryState" where
  "setattr st A_health v = st\<lparr>health := v\<rparr>"
| "setattr st A_power v = st\<lparr>power := v\<rparr>"
| "setattr st A_morality v = st\<lparr>morality := v\<rparr>"
| "setattr st A_notoriety v = st\<lparr>notoriety := v\<rparr>"
| "setattr st A_trust_demon_lord v = st\<lparr>trust_demon_lord := v\<rparr>"

definition mod_attr :: "attr \<Rightarrow> int \<Rightarrow> int \<Rightarrow> int \<Rightarrow> StoryState \<Rightarrow> StoryState" where
  "mod_attr a delta lo hi st = setattr st a (clamp (getattr st a + delta) lo hi)"

definition apply_choice :: "StoryState \<Rightarrow> string \<Rightarrow> string \<times> StoryState" where
  "apply_choice st tag =
     (let dl = demon_lord st;
          st = st\<lparr>chapter := chapter st + 1\<rparr>
      in
         if tag = ''intro_plead'' then
           (let st = mod_attr A_morality 10 (- 100) 100 st;
                st = mod_attr A_trust_demon_lord 15 0 100 st;
                st = st\<lparr>flags := dict_set ''seeking_truth'' (FBool True) (flags st)\<rparr>
            in (narr_intro_plead dl, st))
         else if tag = ''intro_vengeance'' then
           (let st = mod_attr A_morality (- 10) (- 100) 100 st;
                st = mod_attr A_power 10 0 100 st;
                st = st\<lparr>flags := dict_set ''vow_revenge'' (FBool True) (flags st)\<rparr>;
                st = mod_attr A_trust_demon_lord 5 0 100 st
            in (narr_intro_vengeance dl, st))
         else if tag = ''intro_pact'' then
           (let st = mod_attr A_trust_demon_lord 20 0 100 st;
                st = st\<lparr>flags := dict_set ''allied'' (FBool True) (flags st)\<rparr>
            in (narr_intro_pact dl, st))
         else if tag = ''intro_fight'' then
           (let st = mod_attr A_health (- 15) 0 100 st;
                st = mod_attr A_power 5 0 100 st;
                st = mod_attr A_trust_demon_lord 10 0 100 st
            in (narr_intro_fight dl, st))
         else if tag = ''camp_confide'' then
           (let st = mod_attr A_morality 5 (- 100) 100 st;
                st = mod_attr A_trust_demon_lord 12 0 100 st
            in (narr_camp_confide dl, st))
         else if tag = ''camp_silence'' then
           (let st = mod_attr A_power 5 0 100 st;
                st = mod_attr A_trust_demon_lord 2 0 100 st
            in (narr_camp_silence, st))
         else if tag = ''camp_probe'' then
           (let st = mod_attr A_trust_demon_lord (- 3) 0 100 st;
                st = mod_attr A_notoriety 5 0 100 st
            in (narr_camp_probe dl, st))
         else if tag = ''camp_scout'' then
           (let st = mod_attr A_power 3 0 100 st;
                st = mod_attr A_health 3 0 100 st
            in (narr_camp_scout, st))
         else if tag = ''train_defense'' then
           (let st = mod_attr A_power 7 0 100 st;
                st = mod_attr A_morality 5 (- 100) 100 st;
                st = mod_attr A_trust_demon_lord 5 0 100 st
            in (narr_train_defense, st))
         else if tag = ''train_wrath'' then
           (let st = mod_attr A_power 12 0 100 st;
                st = mod_attr A_morality (- 6) (- 100) 100 st;
                st = mod_attr A_notoriety 6 0 100 st
            in (narr_train_wrath, st))
         else if tag = ''train_sync'' then
           (let st = mod_attr A_power 6 0 100 st;
                st = mod_attr A_trust_demon_lord 10 0 100 st;
                st = st\<lparr>bond_demon_lord := clamp (bond_demon_lord st + 1) 0 100\<rparr>
            in (narr_train_sync dl, st))
         else if tag = ''council_diplomacy'' then
           (let st = mod_attr A_morality 8 (- 100) 100 st;
                st = mod_attr A_trust_demon_lord 6 0 100 st;
                st = st\<lparr>flags := dict_set ''seeking_truth'' (FBool True) (flags st)\<rparr>
            in (narr_council_diplomacy, st))
         else if tag = ''council_raids'' then
           (let st = mod_attr A_power 8 0 100 st;
                st = mod_attr A_notoriety 10 0 100 st;
                st = st\<lparr>flags := dict_set ''vow_revenge'' (FBool True) (flags st)\<rparr>
            in (narr_council_raids, st))
         else if tag = ''council_parley'' then
           (let st = mod_attr A_morality 3 (- 100) 100 st;
                st = mod_attr A_notoriety 3 0 100 st;
                st = st\<lparr>flags := dict_set ''parley_set'' (FBool True) (flags st)\<rparr>
            in (narr_council_parley, st))
         else if tag = ''oath_sworn'' then
           (let st = mod_attr A_trust_demon_lord 20 0 100 st;
                st = st\<lparr>flags := dict_set ''oath_bound'' (FBool True) (flags st)\<rparr>;
                st = st\<lparr>bond_demon_lord := clamp (bond_demon_lord st + 3) 0 100\<rparr>
            in (narr_oath_sworn, st))
         else if tag = ''oath_hesitate'' then
           (let st = mod_attr A_trust_demon_lord (- 5) 0 100 st
            in (narr_oath_hesitate, st))
         else if tag = ''oath_refuse'' then
           (let st = mod_attr A_trust_demon_lord (- 12) 0 100 st;
                st = st\<lparr>flags := dict_set ''allied'' (FBool False) (flags st)\<rparr>
            in (narr_oath_refuse, st))
         else if tag = ''spy_intercept'' then
           (let st = mod_attr A_morality 4 (- 100) 100 st;
                st = mod_attr A_notoriety 5 0 100 st
            in (narr_spy_intercept, st))
         else if tag = ''spy_reverse'' then
           (let st = mod_attr A_power 7 0 100 st;
                st = mod_attr A_morality (- 2) (- 100) 100 st;
                st = mod_attr A_notoriety 9 0 100 st
            in (narr_spy_reverse, st))
         else if tag = ''spy_ignore'' then
           (let st = mod_attr A_power 4 0 100 st;
                st = mod_attr A_morality (- 4) (- 100) 100 st
            in (narr_spy_ignore, st))
         else if tag = ''ambush_shadow'' then
           (let st = mod_attr A_power 8 0 100 st;
                st = mod_attr A_morality (- 6) (- 100) 100 st;
                st = mod_attr A_notoriety 8 0 100 st
            in (narr_ambush_shadow, st))
         else if tag = ''ambush_capture'' then
           (let st = mod_attr A_morality 6 (- 100) 100 st;
                st = mod_attr A_notoriety 4 0 100 st
            in (narr_ambush_capture, st))
         else if tag = ''ambush_letgo'' then
           (let st = mod_attr A_morality 2 (- 100) 100 st;
                st = mod_attr A_notoriety 6 0 100 st
            in (narr_ambush_letgo, st))
         else if tag = ''rescue_shield'' then
           (let st = mod_attr A_morality 10 (- 100) 100 st;
                st = mod_attr A_health (- 8) 0 100 st;
                st = mod_attr A_trust_demon_lord 4 0 100 st
            in (narr_rescue_shield, st))
         else if tag = ''rescue_ruse'' then
           (let st = mod_attr A_morality 6 (- 100) 100 st;
                st = mod_attr A_power 3 0 100 st
            in (narr_rescue_ruse, st))
         else if tag = ''rescue_walk'' then
           (let st = mod_attr A_morality (- 10) (- 100) 100 st;
                st = mod_attr A_power 4 0 100 st;
                st = mod_attr A_notoriety 5 0 100 st
            in (narr_rescue_walk, st))
         else if tag = ''bargain_memory'' then
           (let st = mod_attr A_power 15 0 100 st;
                st = mod_attr A_morality (- 8) (- 100) 100 st;
                st = st\<lparr>history := history st @
                       [''You traded a cherished memory at the Thorn Altar.'']\<rparr>
            in (narr_bargain_memory, st))
         else if tag = ''bargain_reject'' then
           (let st = mod_attr A_morality 5 (- 100) 100 st;
                st = mod_attr A_trust_demon_lord 3 0 100 st
            in (narr_bargain_reject, st))
         else if tag = ''bargain_token'' then
           (let st = mod_attr A_power 10 0 100 st;
                st = mod_attr A_notoriety 7 0 100 st
            in (narr_bargain_token, st))
         else if tag = ''ruins_study'' then
           (let st = mod_attr A_power 4 0 100 st;
                st = mod_attr A_morality 2 (- 100) 100 st;
                st = st\<lparr>history := history st @
                       [''Discovered records of prior heroes consumed by their crowns.'']\<rparr>
            in (narr_ruins_study, st))
         else if tag = ''ruins_force'' then
           (let st = mod_attr A_power 8 0 100 st;
                st = mod_attr A_morality (- 4) (- 100) 100 st;
                st = st\<lparr>inventory := inventory st @ [''Vault Relic'']\<rparr>;
                st = st\<lparr>inventory := map fst (fromkeys (inventory st))\<rparr>
            in (narr_ruins_force, st))
         else if tag = ''ruins_mark'' then
           (let st = mod_attr A_morality 1 (- 100) 100 st;
                st = mod_attr A_trust_demon_lord 2 0 100 st
            in (narr_ruins_mark, st))
         else if tag = ''hunt_race'' then
           (let st = mod_attr A_power 5 0 100 st;
                st = mod_attr A_notoriety 3 0 100 st
            in (narr_hunt_race, st))
         else if tag = ''hunt_duel'' then
           (let st = mod_attr A_power 10 0 100 st;
                st = mod_attr A_health (- 6) 0 100 st;
                st = mod_attr A_notoriety 6 0 100 st
            in (narr_hunt_duel, st))
         else if tag = ''hunt_hide'' then
           (let st = mod_attr A_morality 2 (- 100) 100 st
            in (narr_hunt_hide, st))
         else if tag = ''whisper_follow'' then
           (let st = mod_attr A_notoriety 4 0 100 st;
                st = st\<lparr>flags := dict_set ''betrayer_trail'' (FBool True) (flags st)\<rparr>
            in (narr_whisper_follow, st))
         else if tag = ''whisper_ward'' then
           (let st = mod_attr A_power 3 0 100 st;
                st = mod_attr A_morality 1 (- 100) 100 st
            in (narr_whisper_ward, st))
         else if tag = ''whisper_together'' then
           (let st = mod_attr A_trust_demon_lord 8 0 100 st;
                st = st\<lparr>bond_demon_lord := clamp (bond_demon_lord st + 1) 0 100\<rparr>
            in (narr_whisper_together dl, st))
         else (narr_unknown, st))"

subsection \<open>\<^verbatim>\<open>StoryEngine.check_ending\<close>\<close>

definition check_ending :: "StoryState \<Rightarrow> string option" where
  "check_ending st =
     (let dl = demon_lord st
      in if health st \<le> 0 then Some ending_death
         else if 80 \<le> trust_demon_lord st \<and> 70 \<le> power st
                 \<and> (case map_of (flags st) ''oath_bound'' of None \<Rightarrow> False | Some v \<Rightarrow> truthy v)
              then Some (ending_alliance dl)
         else if 80 \<le> notoriety st \<and> 80 \<le> power st \<and> morality st \<le> - 30
              then Some ending_sovereign
         else if 80 \<le> morality st \<and> 50 \<le> power st then Some ending_guardian
         else if 30 \<le> chapter st \<and> trust_demon_lord st < 40 \<and> notoriety st < 40
              then Some ending_exile
         else None)"


section \<open>Notions the stated properties are about\<close>

subsection \<open>Bounds, the tags of the effect table, sequences of choices\<close>

definition in_bounds :: "StoryState \<Rightarrow> bool" where
  \<comment> \<open>the intervals documented on the fields of \<^verbatim>\<open>StoryState\<close> and used by \<^verbatim>\<open>mod\<close>\<close>
  "in_bounds st =
     (0 \<le> health st \<and> health st \<le> 100 \<and> 0 \<le> power st \<and> power st \<le> 100
      \<and> 0 \<le> notoriety st \<and> notoriety st \<le> 100
      \<and> 0 \<le> trust_demon_lord st \<and> trust_demon_lord st \<le> 100
      \<and> 0 \<le> bond_demon_lord st \<and> bond_demon_lord st \<le> 100
      \<and> - 100 \<le> morality st \<and> morality st \<le> 100)"

definition known_tags :: "string list" where
  \<comment> \<open>the tags \<^verbatim>\<open>apply_choice\<close> tests for, in the order of its tests\<close>
  "known_tags =
    [''intro_plead'', ''intro_vengeance'', ''intro_pact'', ''intro_fight'',
     ''camp_confide'', ''camp_silence'', ''camp_probe'', ''camp_scout'',
     ''train_defense'', ''train_wrath'', ''train_sync'', ''council_diplomacy'',
     ''council_raids'', ''council_parley'', ''oath_sworn'', ''oath_hesitate'',
     ''oath_refuse'', ''spy_intercept'', ''spy_reverse'', ''spy_ignore'',
     ''ambush_shadow'', ''ambush_capture'', ''ambush_letgo'', ''rescue_shield'',
     ''rescue_ruse'', ''rescue_walk'', ''bargain_memory'', ''bargain_reject'',
     ''bargain_token'', ''ruins_study'', ''ruins_force'', ''ruins_mark'',
     ''hunt_race'', ''hunt_duel'', ''hunt_hide'', ''whisper_follow'', ''whisper_ward'',
     ''whisper_together'']"

fun apply_choices :: "StoryState \<Rightarrow> string list \<Rightarrow> StoryState" where
  \<comment> \<open>\<^verbatim>\<open>apply_choice\<close> called with each tag in turn, on the same state object\<close>
  "apply_choices st [] = st"
| "apply_choices st (tag # tags) = apply_choices (snd (apply_choice st tag)) tags"

subsection \<open>A sample generator\<close>

definition sample_rng :: "nat randbelow" where
  \<comment> \<open>a linear congruential generator, standing in for \<^verbatim>\<open>random.Random\<close> where a
      statement is evaluated at a concrete input\<close>
  "sample_rng g n = (g mod n, (1103515245 * g + 12345) mod 2147483648)"

subsection \<open>Reachable states\<close>

text \<open>
  A playthrough starts from the dataclass constructor with a name and a seed, as
  \<^verbatim>\<open>new_game\<close> calls it, or from the state \<^verbatim>\<open>new_game\<close> returns. \<^verbatim>\<open>game_loop\<close> then changes the
  state by rendering a scene, by applying a choice, and by the incidental drift of
  \<^verbatim>\<open>health\<close> by one of \<open>-2, -1, 1, 2\<close> through \<open>clamp\<close>.
\<close>

inductive reachable :: "'g randbelow \<Rightarrow> StoryState \<Rightarrow> bool" for rb :: "'g randbelow" where
  constructed: "reachable rb (StoryState_default\<lparr>name := nm, seed := sd\<rparr>)"
| started: "reachable rb (new_game nm sd)"
| rendered: "reachable rb st \<Longrightarrow> generate_scene rb st g = Inr (out, st', g')
             \<Longrightarrow> reachable rb st'"
| chosen: "reachable rb st \<Longrightarrow> reachable rb (snd (apply_choice st tag))"
| drifted: "reachable rb st \<Longrightarrow> d \<in> {- 2, - 1, 1, 2}
            \<Longrightarrow> reachable rb (st\<lparr>health := clamp (health st + d) 0 100\<rparr>)"

subsection \<open>The priority list of the endings\<close>

definition flag_true :: "StoryState \<Rightarrow> string \<Rightarrow> bool" where
  \<comment> \<open>the flag is present and true under Python's truth test\<close>
  "flag_true st k = (case map_of (flags st) k of None \<Rightarrow> False | Some v \<Rightarrow> truthy v)"

definition ending_rules :: "((StoryState \<Rightarrow> bool) \<times> (StoryState \<Rightarrow> string)) list" where
  \<comment> \<open>the five conditions in the order the specification lists them, each with its ending\<close>
  "ending_rules =
    [(\<lambda>st. health st \<le> 0, \<lambda>st. ending_death),
     (\<lambda>st. 80 \<le> trust_demon_lord st \<and> 70 \<le> power st \<and> flag_true st ''oath_bound'',
      \<lambda>st. ending_alliance (demon_lord st)),
     (\<lambda>st. 80 \<le> notoriety st \<and> 80 \<le> power st \<and> morality st \<le> - 30,
      \<lambda>st. ending_sovereign),
     (\<lambda>st. 80 \<le> morality st \<and> 50 \<le> power st, \<lambda>st. ending_guardian),
     (\<lambda>st. 30 \<le> chapter st \<and> trust_demon_lord st < 40 \<and> notoriety st < 40,
      \<lambda>st. ending_exile)]"

definition first_match :: "StoryState \<Rightarrow> string option" where
  \<comment> \<open>the ending of the first rule whose condition holds\<close>
  "first_match st =
     (case find (\<lambda>r. fst r st) ending_rules of None \<Rightarrow> None | Some r \<Rightarrow> Some (snd r st))"

subsection \<open>The eligibility table of the archetypes\<close>

definition eligible :: "StoryState \<Rightarrow> string set" where
  \<comment> \<open>the union of the rows of the specification's table\<close>
  "eligible st =
     (if flag_true st ''met_demon_lord'' \<and> 60 \<le> trust_demon_lord st
         \<and> \<not> flag_true st ''oath_bound'' then {''oath_bond''} else {})
     \<union> (if flag_true st ''met_demon_lord'' \<and> 30 \<le> trust_demon_lord st
         then {''council'', ''training''} else {})
     \<union> (if flag_true st ''met_demon_lord'' \<and> trust_demon_lord st < 30
         then {''tense_camp''} else {})
     \<union> (if flag_true st ''vow_revenge'' then {''spy_report'', ''ambush_king_scouts''} else {})
     \<union> (if 40 \<le> morality st then {''rescue_travelers''} else {})
     \<union> (if morality st \<le> - 40 then {''grim_bargain''} else {})
     \<union> {''mystic_ruins'', ''wild_hunt'', ''whispering_trees''}"

subsection \<open>Sample states\<close>

definition doomed :: StoryState where
  \<comment> \<open>dead, and allied well enough for the alliance ending\<close>
  "doomed = StoryState_default\<lparr>health := 0, power := 90, trust_demon_lord := 95,
     flags := [(''oath_bound'', FBool True)]\<rparr>"

definition camp_state :: StoryState where
  \<comment> \<open>the state of a new game, at chapter 1\<close>
  "camp_state = (new_game ''Ada'' 42)\<lparr>chapter := 1\<rparr>"

subsection \<open>Runs of the engine\<close>

text \<open>
  A turn of \<^verbatim>\<open>game_loop\<close>, its commands, its ending test and its drift aside: the scene is
  rendered, then the tag chosen is applied to the state rendering left. A run threads the
  state and the generator through the turns of a list of tags and records for each turn the
  archetype drawn (none for the introductory scene), the scene and the narration.
\<close>

type_synonym turn = "string option \<times> scene \<times> string"

definition drawn_archetype :: "'g randbelow \<Rightarrow> StoryState \<Rightarrow> 'g \<Rightarrow> string option" where
  \<comment> \<open>the value of \<^verbatim>\<open>chosen\<close> in \<^verbatim>\<open>generate_scene\<close>\<close>
  "drawn_archetype rb st g =
     (if chapter st = 0 then None
      else (case choice rb (scene_archetypes st) g of
              Inl e \<Rightarrow> None
            | Inr (chosen, g') \<Rightarrow> Some chosen))"

inductive run ::
  "'g randbelow \<Rightarrow> StoryState \<times> 'g \<Rightarrow> string list \<Rightarrow> turn list \<Rightarrow> StoryState \<times> 'g \<Rightarrow> bool"
  for rb :: "'g randbelow" where
  run_end: "run rb c [] [] c"
| run_turn: "generate_scene rb st g = Inr (sc, st1, g1)
             \<Longrightarrow> apply_choice st1 tag = (narr, st2)
             \<Longrightarrow> run rb (st2, g1) tags tr c'
             \<Longrightarrow> run rb (st, g) (tag # tags) ((drawn_archetype rb st g, sc, narr) # tr) c'"

section \<open>Serialisation of the state\<close>

subsection \<open>Python values\<close>

text \<open>
  What \<^verbatim>\<open>json.load\<close> gives and what \<^verbatim>\<open>asdict\<close> returns is made of these values. Numbers are
  integers here: a float has no counterpart in this model. The keys of a JSON object are
  strings; the keys of a dictionary that \<^verbatim>\<open>dict()\<close> builds from a sequence of pairs need not
  be, so \<open>PDict\<close> takes any value as a key.
\<close>

datatype pyval =
  PNone | PBool bool | PInt int | PStr string | PList "pyval list"
| PDict "(pyval \<times> pyval) list"

fun hashable :: "pyval \<Rightarrow> bool" where
  "hashable (PList xs) = False"
| "hashable (PDict kvs) = False"
| "hashable v = True"

fun key_eq :: "pyval \<Rightarrow> pyval \<Rightarrow> bool" where
  \<comment> \<open>equality of dictionary keys: \<^verbatim>\<open>True == 1\<close> and \<^verbatim>\<open>False == 0\<close>\<close>
  "key_eq (PBool a) (PInt i) = (i = (if a then 1 else 0))"
| "key_eq (PInt i) (PBool a) = (i = (if a then 1 else 0))"
| "key_eq a b = (a = b)"

fun py_setitem :: "pyval \<Rightarrow> pyval \<Rightarrow> (pyval \<times> pyval) list \<Rightarrow> (pyval \<times> pyval) list" where
  \<comment> \<open>\<^verbatim>\<open>d[k] = v\<close> on a dictionary with keys of any kind: an equal key keeps its place\<close>
  "py_setitem k v [] = [(k, v)]"
| "py_setitem k v (p # d) = (if key_eq (fst p) k then (fst p, v) # d else p # py_setitem k v d)"

definition is_continuation :: "char \<Rightarrow> bool" where
  \<comment> \<open>a byte \<open>10xxxxxx\<close>, which continues a character in UTF-8\<close>
  "is_continuation c = (128 \<le> (of_char c :: nat) \<and> (of_char c :: nat) < 192)"

function utf8_chars :: "string \<Rightarrow> string list" where
  \<comment> \<open>the characters of a Python string, each with the bytes that encode it\<close>
  "utf8_chars [] = []"
| "utf8_chars (c # cs) =
     (c # takeWhile is_continuation cs) # utf8_chars (dropWhile is_continuation cs)"
  by pat_completeness auto
termination
  by (relation "measure length") (auto simp add: length_dropWhile_le less_Suc_eq_le)

fun py_list :: "pyval \<Rightarrow> error + pyval list" where
  \<comment> \<open>\<^verbatim>\<open>list(x)\<close>: the items that iterating over \<open>x\<close> gives\<close>
  "py_list (PList xs) = Inr xs"
| "py_list (PStr s) = Inr (map PStr (utf8_chars s))"
| "py_list (PDict kvs) = Inr (map fst kvs)"
| "py_list v = Inl TypeError"

definition py_pair :: "pyval \<Rightarrow> error + pyval \<times> pyval" where
  \<comment> \<open>an element of the sequence given to \<^verbatim>\<open>dict()\<close>: it must iterate to two items, the
      first of them hashable\<close>
  "py_pair e =
     (case py_list e of
        Inl x \<Rightarrow> Inl TypeError
      | Inr items \<Rightarrow>
          (case items of
             [k, v] \<Rightarrow> if hashable k then Inr (k, v) else Inl TypeError
           | _ \<Rightarrow> Inl ValueError))"

fun py_dict_seq :: "pyval list \<Rightarrow> (pyval \<times> pyval) list \<Rightarrow> error + (pyval \<times> pyval) list" where
  "py_dict_seq [] d = Inr d"
| "py_dict_seq (e # es) d =
     (case py_pair e of Inl x \<Rightarrow> Inl x | Inr (k, v) \<Rightarrow> py_dict_seq es (py_setitem k v d))"

fun py_dict :: "pyval \<Rightarrow> error + (pyval \<times> pyval) list" where
  \<comment> \<open>\<^verbatim>\<open>dict(x)\<close>: a copy of a dictionary, or the dictionary of a sequence of pairs\<close>
  "py_dict (PDict kvs) = Inr kvs"
| "py_dict (PList xs) = py_dict_seq xs []"
| "py_dict (PStr s) = py_dict_seq (map PStr (utf8_chars s)) []"
| "py_dict v = Inl TypeError"

subsection \<open>\<^verbatim>\<open>StoryState.to_dict\<close>, the constructor and \<^verbatim>\<open>StoryState.from_dict\<close>\<close>

text \<open>
  A dataclass instance is the dictionary of its attributes, in the order of the fields.
  Python does not check the annotations, so an attribute may hold any value; \<open>typed\<close>
  gives the record of an instance each of whose attributes has the kind of value its
  annotation names (for \<^verbatim>\<open>flags\<close>: string keys, and boolean or string values).
\<close>

fun enc_flag :: "flag \<Rightarrow> pyval" where
  "enc_flag (FBool b) = PBool b"
| "enc_flag (FStr s) = PStr s"

definition to_dict :: "StoryState \<Rightarrow> (string \<times> pyval) list" where
  \<comment> \<open>\<^verbatim>\<open>asdict(self)\<close>\<close>
  "to_dict st =
    [(''name'', PStr (name st)),
     (''chapter'', PInt (chapter st)),
     (''location'', PStr (location st)),
     (''health'', PInt (health st)),
     (''power'', PInt (power st)),
     (''morality'', PInt (morality st)),
     (''notoriety'', PInt (notoriety st)),
     (''trust_demon_lord'', PInt (trust_demon_lord st)),
     (''bond_demon_lord'', PInt (bond_demon_lord st)),
     (''inventory'', PList (map PStr (inventory st))),
     (''flags'', PDict (map (\<lambda>(k, v). (PStr k, enc_flag v)) (flags st))),
     (''history'', PList (map PStr (history st))),
     (''seed'', PInt (seed st))]"

definition field_names :: "string list" where
  "field_names =
    [''name'', ''chapter'', ''location'', ''health'', ''power'', ''morality'', ''notoriety'',
     ''trust_demon_lord'', ''bond_demon_lord'', ''inventory'', ''flags'', ''history'', ''seed'']"

definition StoryState_init :: "(string \<times> pyval) list \<Rightarrow> error + (string \<times> pyval) list" where
  \<comment> \<open>\<^verbatim>\<open>StoryState(**kwargs)\<close>: a keyword that is not a field is a \<^verbatim>\<open>TypeError\<close>; a field
      without a keyword takes its default\<close>
  "StoryState_init kwargs =
     (if list_all (\<lambda>k. k \<in> set field_names) (map fst kwargs)
      then Inr (map (\<lambda>(f, dflt). (f, dict_get kwargs f dflt)) (to_dict StoryState_default))
      else Inl TypeError)"

definition from_dict :: "(string \<times> pyval) list \<Rightarrow> error + (string \<times> pyval) list" where
  \<comment> \<open>the instance returned; the caller's mapping, which the code fills and reassigns in
      place, is the local \<open>d\<close> here\<close>
  "from_dict d =
     (let defaults = StoryState_default;
          d = fold (\<lambda>(k, v) d. setdefault k v d) (to_dict defaults) d
      in case py_list (dict_get d ''inventory'' (PList [])) of
           Inl e \<Rightarrow> Inl e
         | Inr items \<Rightarrow>
        (let d = dict_set ''inventory'' (PList items) d
         in case py_dict (dict_get d ''flags'' (PDict [])) of
              Inl e \<Rightarrow> Inl e
            | Inr fls \<Rightarrow>
           (let d = dict_set ''flags'' (PDict fls) d
            in case py_list (dict_get d ''history'' (PList [])) of
                 Inl e \<Rightarrow> Inl e
               | Inr lines \<Rightarrow>
              (let d = dict_set ''history'' (PList lines) d
               in StoryState_init d))))"

fun as_str :: "pyval \<Rightarrow> string option" where
  "as_str (PStr s) = Some s"
| "as_str v = None"

fun as_int :: "pyval \<Rightarrow> int option" where
  "as_int (PInt i) = Some i"
| "as_int v = None"

fun as_flag :: "pyval \<Rightarrow> flag option" where
  "as_flag (PBool b) = Some (FBool b)"
| "as_flag (PStr s) = Some (FStr s)"
| "as_flag v = None"

fun as_str_list :: "pyval \<Rightarrow> string list option" where
  "as_str_list (PList xs) = those (map as_str xs)"
| "as_str_list v = None"

fun as_flags :: "pyval \<Rightarrow> (string \<times> flag) list option" where
  "as_flags (PDict kvs) =
     those (map (\<lambda>(k, v). case (as_str k, as_flag v) of
                              (Some s, Some f) \<Rightarrow> Some (s, f)
                            | _ \<Rightarrow> None) kvs)"
| "as_flags v = None"

definition typed :: "(string \<times> pyval) list \<Rightarrow> StoryState option" where
  "typed a =
     (case (Option.bind (map_of a ''name'') as_str,
            Option.bind (map_of a ''chapter'') as_int,
            Option.bind (map_of a ''location'') as_str,
            Option.bind (map_of a ''health'') as_int,
            Option.bind (map_of a ''power'') as_int,
            Option.bind (map_of a ''morality'') as_int,
            Option.bind (map_of a ''notoriety'') as_int,
            Option.bind (map_of a ''trust_demon_lord'') as_int,
            Option.bind (map_of a ''bond_demon_lord'') as_int,
            Option.bind (map_of a ''inventory'') as_str_list,
            Option.bind (map_of a ''flags'') as_flags,
            Option.bind (map_of a ''history'') as_str_list,
            Option.bind (map_of a ''seed'') as_int) of
        (Some n, Some c, Some l, Some h, Some p, Some m, Some no, Some t, Some b, Some i,
         Some f, Some hi, Some s) \<Rightarrow>
          Some \<lparr>name = n, chapter = c, location = l, health = h, power = p, morality = m,
                notoriety = no, trust_demon_lord = t, bond_demon_lord = b, inventory = i,
                flags = f, history = hi, seed = s\<rparr>
      | _ \<Rightarrow> None)"

subsection \<open>A sample mapping\<close>

definition old_save :: "(string \<times> pyval) list" where
  \<comment> \<open>a save with three fields, its flags written as a list of pairs\<close>
  "old_save = [(''name'', PStr ''Ada''), (''health'', PInt 55),
               (''flags'', PList [PList [PStr ''allied'', PBool True]])]"

subsection \<open>\<^verbatim>\<open>from_dict\<close> with the identity of objects\<close>

text \<open>
  Whether the containers of the instance are new objects is a matter of identity, which
  values do not show. Here every value the mapping holds is an object with an address:
  the store lists the objects allocated so far, the address of an object being its
  position, and a mapping or an instance holds addresses. What an object contains is
  kept as a value. A reference always leads to an object, so the addresses a mapping
  holds lie within the store (\<open>valid\<close>). The containers of \<^verbatim>\<open>defaults\<close> itself are left out:
  \<^verbatim>\<open>asdict\<close> copies them and nothing else refers to them.
\<close>

type_synonym addr = nat

type_synonym store = "pyval list"

definition alloc :: "pyval \<Rightarrow> store \<Rightarrow> addr \<times> store" where
  "alloc v s = (length s, s @ [v])"

definition valid :: "store \<Rightarrow> (string \<times> addr) list \<Rightarrow> bool" where
  "valid s d = list_all (\<lambda>a. a < length s) (map snd d)"

definition view :: "store \<Rightarrow> (string \<times> addr) list \<Rightarrow> (string \<times> pyval) list" where
  \<comment> \<open>the mapping with each address replaced by the value of its object\<close>
  "view s d = map (\<lambda>(k, a). (k, s ! a)) d"

fun alloc_all :: "(string \<times> pyval) list \<Rightarrow> store \<Rightarrow> (string \<times> addr) list \<times> store" where
  \<comment> \<open>\<^verbatim>\<open>asdict\<close> builds the value of every field anew\<close>
  "alloc_all [] s = ([], s)"
| "alloc_all ((k, v) # kvs) s =
     (let (a, s) = alloc v s;
          (r, s) = alloc_all kvs s
      in ((k, a) # r, s))"

definition relist ::
  "string \<Rightarrow> (string \<times> addr) list \<Rightarrow> store \<Rightarrow> error + (string \<times> addr) list \<times> store" where
  \<comment> \<open>\<^verbatim>\<open>d[k] = list(d.get(k, []))\<close>: the default \<^verbatim>\<open>[]\<close> is allocated before the lookup\<close>
  "relist k d s =
     (let (a0, s) = alloc (PList []) s
      in case py_list (s ! dict_get d k a0) of
           Inl e \<Rightarrow> Inl e
         | Inr items \<Rightarrow> (let (a, s) = alloc (PList items) s in Inr (dict_set k a d, s)))"

definition redict ::
  "string \<Rightarrow> (string \<times> addr) list \<Rightarrow> store \<Rightarrow> error + (string \<times> addr) list \<times> store" where
  \<comment> \<open>\<^verbatim>\<open>d[k] = dict(d.get(k, {}))\<close>\<close>
  "redict k d s =
     (let (a0, s) = alloc (PDict []) s
      in case py_dict (s ! dict_get d k a0) of
           Inl e \<Rightarrow> Inl e
         | Inr fls \<Rightarrow> (let (a, s) = alloc (PDict fls) s in Inr (dict_set k a d, s)))"

fun init_attrs ::
  "(string \<times> pyval) list \<Rightarrow> (string \<times> addr) list \<Rightarrow> store \<Rightarrow> (string \<times> addr) list \<times> store" where
  \<comment> \<open>the attributes the constructor sets: the keyword's object, or a new default\<close>
  "init_attrs [] kwargs s = ([], s)"
| "init_attrs ((f, dflt) # fs) kwargs s =
     (let (a, s) = (case map_of kwargs f of Some a \<Rightarrow> (a, s) | None \<Rightarrow> alloc dflt s);
          (r, s) = init_attrs fs kwargs s
      in ((f, a) # r, s))"

definition StoryState_init_at ::
  "(string \<times> addr) list \<Rightarrow> store \<Rightarrow> error + (string \<times> addr) list \<times> store" where
  \<comment> \<open>\<^verbatim>\<open>StoryState(**kwargs)\<close>\<close>
  "StoryState_init_at kwargs s =
     (if list_all (\<lambda>k. k \<in> set field_names) (map fst kwargs)
      then Inr (init_attrs (to_dict StoryState_default) kwargs s)
      else Inl TypeError)"

definition from_dict_at ::
  "(string \<times> addr) list \<Rightarrow> store \<Rightarrow> error + (string \<times> addr) list \<times> store" where
  "from_dict_at d s =
     (let (defaults, s) = alloc_all (to_dict StoryState_default) s;
          d = fold (\<lambda>(k, a) d. setdefault k a d) defaults d
      in case relist ''inventory'' d s of
           Inl e \<Rightarrow> Inl e
         | Inr (d, s) \<Rightarrow>
        (case redict ''flags'' d s of
           Inl e \<Rightarrow> Inl e
         | Inr (d, s) \<Rightarrow>
        (case relist ''history'' d s of
           Inl e \<Rightarrow> Inl e
         | Inr (d, s) \<Rightarrow> StoryState_init_at d s)))"

definition old_store :: store where
  \<comment> \<open>the objects of \<open>old_save\<close>, and below the addresses it holds\<close>
  "old_store = [PStr ''Ada'', PInt 55, PList [PList [PStr ''allied'', PBool True]]]"

definition old_refs :: "(string \<times> addr) list" where
  "old_refs = [(''name'', 0), (''health'', 1), (''flags'', 2)]"

section \<open>Verification\<close>

subsection \<open>Facts about the helpers\<close>

lemma chapter_mod_attr [simp]: "chapter (mod_attr a d lo hi st) = chapter st"
  by (cases a) (simp_all add: mod_attr_def)

lemma in_bounds_mod_attr:
  "in_bounds st \<Longrightarrow> a \<noteq> A_morality \<Longrightarrow> in_bounds (mod_attr a d 0 100 st)"
  "in_bounds st \<Longrightarrow> in_bounds (mod_attr A_morality d (- 100) 100 st)"
  by (cases a; simp add: mod_attr_def in_bounds_def clamp_def)+

lemma in_bounds_update [simp]:
  "in_bounds (st\<lparr>chapter := c\<rparr>) = in_bounds st"
  "in_bounds (st\<lparr>flags := f\<rparr>) = in_bounds st"
  "in_bounds (st\<lparr>history := h\<rparr>) = in_bounds st"
  "in_bounds (st\<lparr>inventory := i\<rparr>) = in_bounds st"
  "in_bounds (st\<lparr>location := l\<rparr>) = in_bounds st"
  "in_bounds (st\<lparr>name := n\<rparr>) = in_bounds st"
  "in_bounds (st\<lparr>seed := s\<rparr>) = in_bounds st"
  by (simp_all add: in_bounds_def)

lemma in_bounds_bond:
  "in_bounds st \<Longrightarrow> in_bounds (st\<lparr>bond_demon_lord := clamp v 0 100\<rparr>)"
  by (simp add: in_bounds_def clamp_def)

lemma in_bounds_health:
  "in_bounds st \<Longrightarrow> in_bounds (st\<lparr>health := clamp v 0 100\<rparr>)"
  by (simp add: in_bounds_def clamp_def)

lemma apply_choice_chapter: "chapter (snd (apply_choice st tag)) = chapter st + 1"
  by (simp add: apply_choice_def Let_def)

lemma apply_choice_in_bounds: "in_bounds st \<Longrightarrow> in_bounds (snd (apply_choice st tag))"
  by (simp add: apply_choice_def Let_def in_bounds_mod_attr in_bounds_bond)

lemma apply_choices_in_bounds: "in_bounds st \<Longrightarrow> in_bounds (apply_choices st tags)"
  by (induction tags arbitrary: st) (simp_all add: apply_choice_in_bounds)

lemma apply_choices_append:
  "apply_choices st (ts @ us) = apply_choices (apply_choices st ts) us"
  by (induction ts arbitrary: st) simp_all

lemma apply_choices_chapter:
  "chapter (apply_choices st tags) = chapter st + int (length tags)"
  by (induction tags arbitrary: st) (simp_all add: apply_choice_chapter)

lemma in_bounds_default: "in_bounds StoryState_default"
  by (simp add: in_bounds_def StoryState_default_def)

lemma dispatch_frame: "snd (dispatch chosen st) = st\<lparr>location := location (snd (dispatch chosen st))\<rparr>"
  by (simp add: dispatch_def scene_oath_bond_def scene_council_def scene_training_def
      scene_tense_camp_def scene_spy_report_def scene_ambush_def scene_rescue_def
      scene_grim_bargain_def scene_ruins_def scene_wild_hunt_def scene_whispers_def Let_def)

lemma intro_scene_in_bounds:
  "intro_scene rb st g = Inr (out, st', g') \<Longrightarrow> in_bounds st \<Longrightarrow> in_bounds st'"
  by (auto simp add: intro_scene_def Let_def split: sum.splits option.splits if_splits)

lemma generate_scene_frame:
  assumes "generate_scene rb st g = Inr (out, st', g')" and "chapter st \<noteq> 0"
  shows "st' = st\<lparr>location := location st'\<rparr>"
proof -
  from assms obtain chosen g1 where "dispatch chosen st = (out, st')"
    by (auto simp add: generate_scene_def split: sum.splits prod.splits)
  then have "st' = snd (dispatch chosen st)" by simp
  then show ?thesis using dispatch_frame [of chosen st] by simp
qed

lemma generate_scene_in_bounds:
  assumes "generate_scene rb st g = Inr (out, st', g')" and "in_bounds st"
  shows "in_bounds st'"
proof (cases "chapter st = 0")
  case True
  with assms show ?thesis by (simp add: generate_scene_def intro_scene_in_bounds)
next
  case False
  with assms(1) have "st' = st\<lparr>location := location st'\<rparr>"
    by (rule generate_scene_frame)
  then have "in_bounds st' = in_bounds st"
    by (metis in_bounds_update(5))
  with assms(2) show ?thesis by simp
qed

lemma reachable_in_bounds: "reachable rb st \<Longrightarrow> in_bounds st"
proof (induction rule: reachable.induct)
  case constructed
  show ?case by (simp add: in_bounds_default)
next
  case started
  show ?case by (simp add: new_game_def in_bounds_default)
next
  case (rendered st g out st' g')
  from rendered(2) rendered(3) show ?case by (rule generate_scene_in_bounds)
next
  case (chosen st tag)
  then show ?case by (simp add: apply_choice_in_bounds)
next
  case (drifted st d)
  then show ?case by (simp add: in_bounds_health)
qed

lemma rng_ok_sample: "rng_ok sample_rng"
  by (simp add: rng_ok_def sample_rng_def)

subsection \<open>Bounds, chapters and unknown tags\<close>

text \<open>
  C1. Every reachable state has its bounded attributes within their intervals
  (\<^verbatim>\<open>health\<close>, \<^verbatim>\<open>power\<close>, \<^verbatim>\<open>notoriety\<close>, \<^verbatim>\<open>trust_demon_lord\<close> and \<^verbatim>\<open>bond_demon_lord\<close> in
  \<open>[0, 100]\<close>, \<^verbatim>\<open>morality\<close> in \<open>[-100, 100]\<close>), and so has the state after any sequence of
  applied choice tags, known or unknown. Every prefix of a sequence is a sequence, so the
  bounds hold after each single application.
\<close>
theorem bounded_attributes_invariant:
  "reachable rb st \<Longrightarrow> in_bounds st \<and> in_bounds (apply_choices st tags)"
  by (simp add: reachable_in_bounds apply_choices_in_bounds)

theorem bounded_attributes_invariant_witness:
  "reachable sample_rng (new_game ''Ada'' 42)
   \<and> in_bounds (apply_choices (new_game ''Ada'' 42) [''intro_fight'', ''not_a_tag'', ''hunt_duel''])"
  using bounded_attributes_invariant [where rb = sample_rng and st = "new_game ''Ada'' 42"
      and tags = "[''intro_fight'', ''not_a_tag'', ''hunt_duel'']"]
  by (simp add: reachable.started)

text \<open>
  C5. \<^verbatim>\<open>apply_choice\<close> adds exactly 1 to \<^verbatim>\<open>chapter\<close> for every state and every tag, known or
  not; over a sequence of applied choices \<^verbatim>\<open>chapter\<close> grows by the number of choices applied
  and never decreases when the sequence is extended.
\<close>
theorem chapter_increment:
  "chapter (snd (apply_choice st tag)) = chapter st + 1
   \<and> chapter (apply_choices st tags) = chapter st + int (length tags)
   \<and> chapter (apply_choices st tags) \<le> chapter (apply_choices st (tags @ rest))"
  by (simp add: apply_choice_chapter apply_choices_chapter apply_choices_append)

text \<open>
  C4. For a tag that \<^verbatim>\<open>apply_choice\<close> does not test for, the result is the fixed fallback
  narration and the state it was given with \<^verbatim>\<open>chapter\<close> increased by 1: no attribute, flag,
  inventory entry or history line changes.
\<close>
theorem unknown_tag_noop:
  "tag \<notin> set known_tags
   \<Longrightarrow> apply_choice st tag = (narr_unknown, st\<lparr>chapter := chapter st + 1\<rparr>)"
  by (simp add: apply_choice_def known_tags_def Let_def)

theorem unknown_tag_noop_witness:
  "''camp_dance'' \<notin> set known_tags
   \<and> apply_choice StoryState_default ''camp_dance''
       = (narr_unknown, StoryState_default\<lparr>chapter := chapter StoryState_default + 1\<rparr>)"
proof -
  have h: "''camp_dance'' \<notin> set known_tags" by (simp add: known_tags_def)
  show ?thesis using h unknown_tag_noop [OF h, of StoryState_default] by simp
qed

subsection \<open>Endings and archetypes\<close>

lemma dict_get_truthy:
  "truthy (dict_get (flags st) k (FBool False)) = flag_true st k"
  by (simp add: dict_get_def flag_true_def split: option.split)

lemma check_ending_first_match: "check_ending st = first_match st"
  by (simp add: check_ending_def first_match_def ending_rules_def flag_true_def Let_def)

text \<open>
  C3. \<^verbatim>\<open>check_ending\<close> returns the ending of the first of the five rules, taken in their
  fixed order, whose condition holds. So a state that meets both the death condition
  (\<^verbatim>\<open>health <= 0\<close>) and the alliance condition (\<^verbatim>\<open>trust_demon_lord >= 80\<close>, \<^verbatim>\<open>power >= 70\<close>,
  the flag \<^verbatim>\<open>oath_bound\<close> true) gets the death ending, and a state that meets none of the
  five conditions gets no ending.
\<close>
theorem ending_priority:
  "check_ending st = first_match st
   \<and> (health st \<le> 0 \<and> 80 \<le> trust_demon_lord st \<and> 70 \<le> power st
        \<and> flag_true st ''oath_bound'' \<longrightarrow> check_ending st = Some ending_death)
   \<and> (\<not> health st \<le> 0
        \<and> \<not> (80 \<le> trust_demon_lord st \<and> 70 \<le> power st \<and> flag_true st ''oath_bound'')
        \<and> \<not> (80 \<le> notoriety st \<and> 80 \<le> power st \<and> morality st \<le> - 30)
        \<and> \<not> (80 \<le> morality st \<and> 50 \<le> power st)
        \<and> \<not> (30 \<le> chapter st \<and> trust_demon_lord st < 40 \<and> notoriety st < 40)
        \<longrightarrow> check_ending st = None)"
proof (intro conjI impI)
  show "check_ending st = first_match st" by (rule check_ending_first_match)
next
  assume "health st \<le> 0 \<and> 80 \<le> trust_demon_lord st \<and> 70 \<le> power st
        \<and> flag_true st ''oath_bound''"
  then show "check_ending st = Some ending_death" by (simp add: check_ending_def)
next
  assume "\<not> health st \<le> 0
        \<and> \<not> (80 \<le> trust_demon_lord st \<and> 70 \<le> power st \<and> flag_true st ''oath_bound'')
        \<and> \<not> (80 \<le> notoriety st \<and> 80 \<le> power st \<and> morality st \<le> - 30)
        \<and> \<not> (80 \<le> morality st \<and> 50 \<le> power st)
        \<and> \<not> (30 \<le> chapter st \<and> trust_demon_lord st < 40 \<and> notoriety st < 40)"
  then show "check_ending st = None"
    by (simp add: check_ending_def flag_true_def Let_def)
qed

theorem ending_priority_witness:
  "(health doomed \<le> 0 \<and> 80 \<le> trust_demon_lord doomed \<and> 70 \<le> power doomed
      \<and> flag_true doomed ''oath_bound'')
   \<and> check_ending doomed = Some ending_death
   \<and> (\<not> health StoryState_default \<le> 0
        \<and> \<not> (80 \<le> trust_demon_lord StoryState_default \<and> 70 \<le> power StoryState_default
              \<and> flag_true StoryState_default ''oath_bound'')
        \<and> \<not> (80 \<le> notoriety StoryState_default \<and> 80 \<le> power StoryState_default
              \<and> morality StoryState_default \<le> - 30)
        \<and> \<not> (80 \<le> morality StoryState_default \<and> 50 \<le> power StoryState_default)
        \<and> \<not> (30 \<le> chapter StoryState_default \<and> trust_demon_lord StoryState_default < 40
              \<and> notoriety StoryState_default < 40))
   \<and> check_ending StoryState_default = None"
proof -
  have a: "health doomed \<le> 0 \<and> 80 \<le> trust_demon_lord doomed \<and> 70 \<le> power doomed
      \<and> flag_true doomed ''oath_bound''"
    by (simp add: doomed_def StoryState_default_def flag_true_def)
  have b: "\<not> health StoryState_default \<le> 0
        \<and> \<not> (80 \<le> trust_demon_lord StoryState_default \<and> 70 \<le> power StoryState_default
              \<and> flag_true StoryState_default ''oath_bound'')
        \<and> \<not> (80 \<le> notoriety StoryState_default \<and> 80 \<le> power StoryState_default
              \<and> morality StoryState_default \<le> - 30)
        \<and> \<not> (80 \<le> morality StoryState_default \<and> 50 \<le> power StoryState_default)
        \<and> \<not> (30 \<le> chapter StoryState_default \<and> trust_demon_lord StoryState_default < 40
              \<and> notoriety StoryState_default < 40)"
    by (simp add: StoryState_default_def flag_true_def)
  from a b ending_priority [of doomed] ending_priority [of StoryState_default]
  show ?thesis by blast
qed

lemma scene_archetypes_eligible: "set (scene_archetypes st) = eligible st"
  by (auto simp add: scene_archetypes_def eligible_def dict_get_truthy Let_def)

subsection \<open>Rendering a scene\<close>

lemma choice_ok:
  assumes "rng_ok rb" and "xs \<noteq> []"
  shows "\<exists>x g'. choice rb xs g = Inr (x, g') \<and> x \<in> set xs"
proof -
  from assms have "fst (rb g (length xs)) < length xs"
    by (simp add: rng_ok_def)
  then show ?thesis using assms(2)
    by (cases "rb g (length xs)") (simp add: choice_def)
qed

lemma choice_member: "choice rb xs g = Inr (x, g') \<Longrightarrow> x \<in> set xs"
  by (auto simp add: choice_def Let_def split: if_splits prod.splits)

lemma generate_scene_later:
  "chapter st \<noteq> 0 \<Longrightarrow> choice rb (scene_archetypes st) g = Inr (chosen, g')
   \<Longrightarrow> generate_scene rb st g = Inr (fst (dispatch chosen st), snd (dispatch chosen st), g')"
  by (simp add: generate_scene_def split: prod.splits)


lemma generate_scene_returns:
  assumes "rng_ok rb" and "chapter st \<noteq> 0"
  shows "\<exists>chosen g'. chosen \<in> set (scene_archetypes st)
           \<and> choice rb (scene_archetypes st) g = Inr (chosen, g')
           \<and> generate_scene rb st g = Inr (fst (dispatch chosen st), snd (dispatch chosen st), g')"
proof -
  have "scene_archetypes st \<noteq> []" by (simp add: scene_archetypes_def Let_def)
  with assms(1) have "\<exists>x g'. choice rb (scene_archetypes st) g = Inr (x, g') \<and> x \<in> set (scene_archetypes st)"
    by (rule choice_ok)
  then obtain chosen g' where
    c: "choice rb (scene_archetypes st) g = Inr (chosen, g')" and m: "chosen \<in> set (scene_archetypes st)"
    by auto
  from assms(2) c have "generate_scene rb st g = Inr (fst (dispatch chosen st), snd (dispatch chosen st), g')"
    by (rule generate_scene_later)
  with c m show ?thesis by auto
qed


lemma location_only:
  "st' = st\<lparr>location := l\<rparr> \<Longrightarrow>
     health st' = health st \<and> power st' = power st \<and> morality st' = morality st
     \<and> notoriety st' = notoriety st \<and> trust_demon_lord st' = trust_demon_lord st
     \<and> bond_demon_lord st' = bond_demon_lord st \<and> chapter st' = chapter st
     \<and> name st' = name st \<and> seed st' = seed st \<and> inventory st' = inventory st
     \<and> flags st' = flags st \<and> history st' = history st"
  by simp

lemma camp_archetypes:
  "scene_archetypes camp_state = [''tense_camp'', ''mystic_ruins'', ''wild_hunt'', ''whispering_trees'']"
  by (simp add: scene_archetypes_def camp_state_def new_game_def StoryState_default_def dict_get_def Let_def)

lemma camp_render:
  "generate_scene sample_rng camp_state 7
     = Inr (fst (scene_whispers camp_state), snd (scene_whispers camp_state), snd (sample_rng 7 4))"
proof -
  have "choice sample_rng (scene_archetypes camp_state) 7 = Inr (''whispering_trees'', snd (sample_rng 7 4))"
    by (simp add: camp_archetypes choice_def) (simp add: sample_rng_def)
  moreover have "chapter camp_state \<noteq> 0" by (simp add: camp_state_def)
  ultimately show ?thesis
    by (simp add: generate_scene_def dispatch_def split: prod.splits)
qed

text \<open>
  C10. For a state with \<^verbatim>\<open>chapter >= 1\<close>, rendering a scene changes the field \<^verbatim>\<open>location\<close>
  and nothing else: the bounded attributes, \<^verbatim>\<open>chapter\<close>, \<^verbatim>\<open>name\<close>, \<^verbatim>\<open>seed\<close>, \<^verbatim>\<open>inventory\<close>,
  \<^verbatim>\<open>flags\<close> and \<^verbatim>\<open>history\<close> of the state returned are those of the state given. With a
  generator that keeps the library's promise, rendering does return.
\<close>
theorem render_frame:
  "1 \<le> chapter st \<Longrightarrow>
     (\<forall>out st' g'. generate_scene rb st g = Inr (out, st', g') \<longrightarrow>
        st' = st\<lparr>location := location st'\<rparr>
        \<and> health st' = health st \<and> power st' = power st \<and> morality st' = morality st
        \<and> notoriety st' = notoriety st \<and> trust_demon_lord st' = trust_demon_lord st
        \<and> bond_demon_lord st' = bond_demon_lord st \<and> chapter st' = chapter st
        \<and> name st' = name st \<and> seed st' = seed st \<and> inventory st' = inventory st
        \<and> flags st' = flags st \<and> history st' = history st)
     \<and> (rng_ok rb \<longrightarrow> (\<exists>out st' g'. generate_scene rb st g = Inr (out, st', g')))"
proof -
  assume c: "1 \<le> chapter st"
  then have n: "chapter st \<noteq> 0" by simp
  have a: "st' = st\<lparr>location := location st'\<rparr>
        \<and> health st' = health st \<and> power st' = power st \<and> morality st' = morality st
        \<and> notoriety st' = notoriety st \<and> trust_demon_lord st' = trust_demon_lord st
        \<and> bond_demon_lord st' = bond_demon_lord st \<and> chapter st' = chapter st
        \<and> name st' = name st \<and> seed st' = seed st \<and> inventory st' = inventory st
        \<and> flags st' = flags st \<and> history st' = history st"
    if r: "generate_scene rb st g = Inr (out, st', g')" for out st' g'
  proof -
    from r n have e: "st' = st\<lparr>location := location st'\<rparr>" by (rule generate_scene_frame)
    from e location_only [OF e] show ?thesis by (rule conjI)
  qed
  have b: "\<exists>out st' g'. generate_scene rb st g = Inr (out, st', g')" if ok: "rng_ok rb"
  proof -
    from ok n obtain chosen g' where
      "generate_scene rb st g = Inr (fst (dispatch chosen st), snd (dispatch chosen st), g')"
      using generate_scene_returns [of rb st g] by auto
    then show ?thesis by blast
  qed
  from a b show ?thesis by blast
qed

theorem render_frame_witness:
  "1 \<le> chapter camp_state \<and> rng_ok sample_rng
   \<and> generate_scene sample_rng camp_state 7
       = Inr (fst (scene_whispers camp_state), camp_state\<lparr>location := loc_scene_whispers\<rparr>,
              snd (sample_rng 7 4))
   \<and> flags (camp_state\<lparr>location := loc_scene_whispers\<rparr>) = flags camp_state
   \<and> history (camp_state\<lparr>location := loc_scene_whispers\<rparr>) = history camp_state"
proof -
  have c: "1 \<le> chapter camp_state" by (simp add: camp_state_def)
  have s: "snd (scene_whispers camp_state) = camp_state\<lparr>location := loc_scene_whispers\<rparr>"
    by (simp add: scene_whispers_def Let_def)
  from render_frame [OF c, of sample_rng 7] camp_render s c rng_ok_sample
  show ?thesis by simp
qed

text \<open>
  C6. For a state with \<^verbatim>\<open>chapter >= 1\<close> the list of candidate archetypes that
  \<^verbatim>\<open>generate_scene\<close> builds has exactly the members the eligibility table gives, among
  them always \<^verbatim>\<open>mystic_ruins\<close>, \<^verbatim>\<open>wild_hunt\<close> and \<^verbatim>\<open>whispering_trees\<close>, so it is never
  empty; with \<^verbatim>\<open>met_demon_lord\<close> true and \<^verbatim>\<open>trust_demon_lord = 10\<close> it holds \<^verbatim>\<open>tense_camp\<close> and
  neither \<^verbatim>\<open>council\<close> nor \<^verbatim>\<open>training\<close>. The scene rendered is the one of an archetype
  drawn from that list.
\<close>
theorem archetypes_table:
  "1 \<le> chapter st \<Longrightarrow>
     set (scene_archetypes st) = eligible st
     \<and> {''mystic_ruins'', ''wild_hunt'', ''whispering_trees''} \<subseteq> set (scene_archetypes st)
     \<and> scene_archetypes st \<noteq> []
     \<and> (flag_true st ''met_demon_lord'' \<and> trust_demon_lord st = 10 \<longrightarrow>
          ''tense_camp'' \<in> set (scene_archetypes st)
          \<and> ''council'' \<notin> set (scene_archetypes st)
          \<and> ''training'' \<notin> set (scene_archetypes st))
     \<and> (rng_ok rb \<longrightarrow>
          (\<exists>chosen g'. chosen \<in> eligible st
             \<and> choice rb (scene_archetypes st) g = Inr (chosen, g')
             \<and> generate_scene rb st g
                 = Inr (fst (dispatch chosen st), snd (dispatch chosen st), g')))"
proof (intro conjI impI)
  show "set (scene_archetypes st) = eligible st" by (rule scene_archetypes_eligible)
  show "{''mystic_ruins'', ''wild_hunt'', ''whispering_trees''} \<subseteq> set (scene_archetypes st)"
    by (simp add: scene_archetypes_eligible eligible_def)
  show "scene_archetypes st \<noteq> []" by (simp add: scene_archetypes_def Let_def)
next
  assume h: "flag_true st ''met_demon_lord'' \<and> trust_demon_lord st = 10"
  then show "''tense_camp'' \<in> set (scene_archetypes st)"
    by (simp add: scene_archetypes_eligible eligible_def)
  from h show "''council'' \<notin> set (scene_archetypes st)"
    by (simp add: scene_archetypes_eligible eligible_def)
  from h show "''training'' \<notin> set (scene_archetypes st)"
    by (simp add: scene_archetypes_eligible eligible_def)
next
  assume "1 \<le> chapter st" and ok: "rng_ok rb"
  then have "chapter st \<noteq> 0" by simp
  with ok show "\<exists>chosen g'. chosen \<in> eligible st
             \<and> choice rb (scene_archetypes st) g = Inr (chosen, g')
             \<and> generate_scene rb st g
                 = Inr (fst (dispatch chosen st), snd (dispatch chosen st), g')"
    using generate_scene_returns [of rb st g] by (simp add: scene_archetypes_eligible)
qed

theorem archetypes_table_witness:
  "1 \<le> chapter camp_state \<and> rng_ok sample_rng
   \<and> flag_true camp_state ''met_demon_lord'' \<and> trust_demon_lord camp_state = 10
   \<and> eligible camp_state = {''tense_camp'', ''mystic_ruins'', ''wild_hunt'', ''whispering_trees''}
   \<and> set (scene_archetypes camp_state) = eligible camp_state
   \<and> ''tense_camp'' \<in> set (scene_archetypes camp_state)
   \<and> ''council'' \<notin> set (scene_archetypes camp_state)
   \<and> ''training'' \<notin> set (scene_archetypes camp_state)
   \<and> (\<exists>chosen g'. chosen \<in> eligible camp_state
         \<and> generate_scene sample_rng camp_state 7
             = Inr (fst (dispatch chosen camp_state), snd (dispatch chosen camp_state), g'))"
proof -
  have c: "1 \<le> chapter camp_state" by (simp add: camp_state_def)
  have f: "flag_true camp_state ''met_demon_lord'' \<and> trust_demon_lord camp_state = 10"
    by (simp add: camp_state_def new_game_def StoryState_default_def flag_true_def)
  note t = archetypes_table [OF c, of sample_rng 7]
  have s: "set (scene_archetypes camp_state) = eligible camp_state"
    using t by (rule conjunct1)
  have e: "eligible camp_state = {''tense_camp'', ''mystic_ruins'', ''wild_hunt'', ''whispering_trees''}"
    unfolding s [symmetric] by (simp add: camp_archetypes)
  have m: "''tense_camp'' \<in> set (scene_archetypes camp_state)
     \<and> ''council'' \<notin> set (scene_archetypes camp_state)
     \<and> ''training'' \<notin> set (scene_archetypes camp_state)"
    using t f by blast
  have "\<exists>chosen g'. chosen \<in> eligible camp_state
         \<and> choice sample_rng (scene_archetypes camp_state) 7 = Inr (chosen, g')
         \<and> generate_scene sample_rng camp_state 7
             = Inr (fst (dispatch chosen camp_state), snd (dispatch chosen camp_state), g')"
    using t rng_ok_sample by blast
  then have x: "\<exists>chosen g'. chosen \<in> eligible camp_state
         \<and> generate_scene sample_rng camp_state 7
             = Inr (fst (dispatch chosen camp_state), snd (dispatch chosen camp_state), g')"
    by blast
  from c rng_ok_sample f e s m x show ?thesis by (intro conjI) (rule TrueI | blast)+
qed
subsection \<open>The introductory scene and the pact\<close>

lemma intro_render:
  assumes "choice rb demon_names g = Inr (n, g')"
  shows "generate_scene rb (StoryState_default\<lparr>seed := sd\<rparr>) g
     = Inr ((text_intro_scene n, choices_intro_scene),
            StoryState_default
              \<lparr>seed := sd, chapter := 1, location := loc_intro_scene,
               flags := [(''betrayed'', FBool True), (''met_demon_lord'', FBool True),
                         (''allied'', FBool False), (''vow_revenge'', FBool False),
                         (''seeking_truth'', FBool True), (''demon_lord_name'', FStr n)],
               history := [intro_history]\<rparr>, g')"
  using assms
  by (simp add: generate_scene_def intro_scene_def setdefault_def dict_set_def
      StoryState_default_def Let_def)

lemma pact_after_intro:
  assumes "chapter st = 1" and "trust_demon_lord st = 10"
  shows "trust_demon_lord (snd (apply_choice st ''intro_pact'')) = 30
     \<and> flags (snd (apply_choice st ''intro_pact'')) = dict_set ''allied'' (FBool True) (flags st)
     \<and> chapter (snd (apply_choice st ''intro_pact'')) = 2"
  using assms by (simp add: apply_choice_def Let_def mod_attr_def clamp_def)

lemma intro_choices:
  "length choices_intro_scene = 4
   \<and> map snd choices_intro_scene
       = [''intro_plead'', ''intro_vengeance'', ''intro_pact'', ''intro_fight'']"
  by (simp add: choices_intro_scene_def)

lemma intro_then_pact_at:
  assumes "choice rb demon_names g = Inr (n, g')"
  shows "\<exists>st1. generate_scene rb (StoryState_default\<lparr>seed := sd\<rparr>) g
           = Inr ((text_intro_scene n, choices_intro_scene), st1, g')
         \<and> chapter st1 = 1
         \<and> trust_demon_lord (snd (apply_choice st1 ''intro_pact'')) = 30
         \<and> map_of (flags (snd (apply_choice st1 ''intro_pact''))) ''allied'' = Some (FBool True)
         \<and> chapter (snd (apply_choice st1 ''intro_pact'')) = 2"
proof -
  let ?st1 = "StoryState_default
              \<lparr>seed := sd, chapter := 1, location := loc_intro_scene,
               flags := [(''betrayed'', FBool True), (''met_demon_lord'', FBool True),
                         (''allied'', FBool False), (''vow_revenge'', FBool False),
                         (''seeking_truth'', FBool True), (''demon_lord_name'', FStr n)],
               history := [intro_history]\<rparr>"
  have r: "generate_scene rb (StoryState_default\<lparr>seed := sd\<rparr>) g
           = Inr ((text_intro_scene n, choices_intro_scene), ?st1, g')"
    using assms by (rule intro_render)
  have c: "chapter ?st1 = 1" by simp
  have t: "trust_demon_lord ?st1 = 10" by (simp add: StoryState_default_def)
  note p = pact_after_intro [OF c t]
  have f: "map_of (flags (snd (apply_choice ?st1 ''intro_pact''))) ''allied'' = Some (FBool True)"
    by (simp add: p dict_set_def)
  from r c p f show ?thesis by blast
qed

text \<open>
  C2. For the default-constructed state with seed 42, at chapter 0, rendering returns the
  introductory scene, with the name of the demon lord drawn from the eight names and with
  exactly 4 choices, and leaves the state at chapter 1. Applying the tag \<^verbatim>\<open>intro_pact\<close> to the
  state rendering left then yields \<^verbatim>\<open>trust_demon_lord = 30\<close>, the flag \<^verbatim>\<open>allied\<close> true and
  \<^verbatim>\<open>chapter = 2\<close>: the introductory scene sets \<^verbatim>\<open>chapter\<close> to 1 and \<^verbatim>\<open>apply_choice\<close> adds 1,
  so the chapter is not 1 after the choice.
\<close>
theorem intro_then_pact:
  "rng_ok rb \<Longrightarrow>
     (\<exists>dl st1 g1. dl \<in> set demon_names
        \<and> generate_scene rb (StoryState_default\<lparr>seed := 42\<rparr>) g
            = Inr ((text_intro_scene dl, choices_intro_scene), st1, g1)
        \<and> length choices_intro_scene = 4
        \<and> map snd choices_intro_scene
            = [''intro_plead'', ''intro_vengeance'', ''intro_pact'', ''intro_fight'']
        \<and> chapter st1 = 1
        \<and> trust_demon_lord (snd (apply_choice st1 ''intro_pact'')) = 30
        \<and> map_of (flags (snd (apply_choice st1 ''intro_pact''))) ''allied'' = Some (FBool True)
        \<and> chapter (snd (apply_choice st1 ''intro_pact'')) = 2)"
proof -
  assume ok: "rng_ok rb"
  have "demon_names \<noteq> []" by (simp add: demon_names_def)
  with ok have "\<exists>x g'. choice rb demon_names g = Inr (x, g') \<and> x \<in> set demon_names"
    by (rule choice_ok)
  then obtain n g' where c: "choice rb demon_names g = Inr (n, g')" and m: "n \<in> set demon_names"
    by auto
  from intro_then_pact_at [OF c, of 42] obtain st1 where
    r: "generate_scene rb (StoryState_default\<lparr>seed := 42\<rparr>) g
           = Inr ((text_intro_scene n, choices_intro_scene), st1, g')"
    and c1: "chapter st1 = 1"
    and t: "trust_demon_lord (snd (apply_choice st1 ''intro_pact'')) = 30"
    and f: "map_of (flags (snd (apply_choice st1 ''intro_pact''))) ''allied'' = Some (FBool True)"
    and c2: "chapter (snd (apply_choice st1 ''intro_pact'')) = 2"
    by blast
  from intro_choices have l: "length choices_intro_scene = 4"
    by (rule conjunct1)
  from intro_choices have t4: "map snd choices_intro_scene
            = [''intro_plead'', ''intro_vengeance'', ''intro_pact'', ''intro_fight'']"
    by (rule conjunct2)
  show ?thesis
  proof (intro exI conjI)
    show "n \<in> set demon_names" by (rule m)
    show "generate_scene rb (StoryState_default\<lparr>seed := 42\<rparr>) g
           = Inr ((text_intro_scene n, choices_intro_scene), st1, g')" by (rule r)
    show "length choices_intro_scene = 4" by (rule l)
    show "map snd choices_intro_scene
            = [''intro_plead'', ''intro_vengeance'', ''intro_pact'', ''intro_fight'']" by (rule t4)
    show "chapter st1 = 1" by (rule c1)
    show "trust_demon_lord (snd (apply_choice st1 ''intro_pact'')) = 30" by (rule t)
    show "map_of (flags (snd (apply_choice st1 ''intro_pact''))) ''allied'' = Some (FBool True)"
      by (rule f)
    show "chapter (snd (apply_choice st1 ''intro_pact'')) = 2" by (rule c2)
  qed
qed

lemma sample_draw: "choice sample_rng demon_names 42 = Inr (''Lilithe'', snd (sample_rng 42 8))"
  by (simp add: choice_def demon_names_def) (simp add: sample_rng_def)

theorem intro_then_pact_witness:
  "rng_ok sample_rng
   \<and> (\<exists>st1. generate_scene sample_rng (StoryState_default\<lparr>seed := 42\<rparr>) 42
           = Inr ((text_intro_scene ''Lilithe'', choices_intro_scene), st1, snd (sample_rng 42 8))
        \<and> trust_demon_lord (snd (apply_choice st1 ''intro_pact'')) = 30
        \<and> map_of (flags (snd (apply_choice st1 ''intro_pact''))) ''allied'' = Some (FBool True)
        \<and> chapter (snd (apply_choice st1 ''intro_pact'')) = 2)"
proof -
  from intro_then_pact [OF rng_ok_sample, of 42] obtain dl st1 g1 where
    r: "generate_scene sample_rng (StoryState_default\<lparr>seed := 42\<rparr>) 42
            = Inr ((text_intro_scene dl, choices_intro_scene), st1, g1)"
    and t: "trust_demon_lord (snd (apply_choice st1 ''intro_pact'')) = 30"
    and f: "map_of (flags (snd (apply_choice st1 ''intro_pact''))) ''allied'' = Some (FBool True)"
    and c2: "chapter (snd (apply_choice st1 ''intro_pact'')) = 2"
    by blast
  from intro_render [OF sample_draw, of 42] r
  have "text_intro_scene dl = text_intro_scene ''Lilithe'' \<and> g1 = snd (sample_rng 42 8)"
    by simp
  with r t f c2 rng_ok_sample show ?thesis by auto
qed

theorem intro_then_pact_counterexample:
  "\<not> isl (generate_scene sample_rng (StoryState_default\<lparr>seed := 42\<rparr>) 42)
   \<and> chapter (snd (apply_choice
         (fst (snd (projr (generate_scene sample_rng (StoryState_default\<lparr>seed := 42\<rparr>) 42))))
         ''intro_pact'')) = 2
   \<and> chapter (snd (apply_choice
         (fst (snd (projr (generate_scene sample_rng (StoryState_default\<lparr>seed := 42\<rparr>) 42))))
         ''intro_pact'')) \<noteq> 1"
  by (simp add: intro_render [OF sample_draw] apply_choice_chapter)
subsection \<open>Determinism of a run\<close>

lemma intro_scene_returns:
  assumes "rng_ok rb"
  shows "\<exists>r. intro_scene rb st g = Inr r"
proof -
  have "demon_names \<noteq> []" by (simp add: demon_names_def)
  with assms have "\<exists>x g'. choice rb demon_names g = Inr (x, g') \<and> x \<in> set demon_names"
    by (rule choice_ok)
  then obtain n g' where "choice rb demon_names g = Inr (n, g')" by auto
  then show ?thesis
    by (simp add: intro_scene_def Let_def split: option.splits)
qed

lemma generate_scene_total:
  assumes "rng_ok rb"
  shows "\<exists>sc st1 g1. generate_scene rb st g = Inr (sc, st1, g1)"
proof (cases "chapter st = 0")
  case True
  from intro_scene_returns [OF assms, of st g] obtain r where "intro_scene rb st g = Inr r"
    by auto
  with True show ?thesis by (cases r) (simp add: generate_scene_def)
next
  case False
  with assms show ?thesis using generate_scene_returns [of rb st g] by auto
qed

lemma run_total:
  assumes "rng_ok rb"
  shows "\<exists>tr c'. run rb (st, g) tags tr c'"
proof (induction tags arbitrary: st g)
  case Nil
  show ?case using run.run_end by blast
next
  case (Cons tag tags)
  from generate_scene_total [OF assms, of st g] obtain sc st1 g1
    where r: "generate_scene rb st g = Inr (sc, st1, g1)" by auto
  obtain narr st2 where a: "apply_choice st1 tag = (narr, st2)"
    by (cases "apply_choice st1 tag") auto
  from Cons [of st2 g1] obtain tr c' where "run rb (st2, g1) tags tr c'" by auto
  with r a have "run rb (st, g) (tag # tags) ((drawn_archetype rb st g, sc, narr) # tr) c'"
    by (rule run.run_turn)
  then show ?case by blast
qed

lemma run_unique:
  "run rb c tags tr1 c1 \<Longrightarrow> run rb c tags tr2 c2 \<Longrightarrow> tr1 = tr2 \<and> c1 = c2"
proof (induction arbitrary: tr2 c2 rule: run.induct)
  case (run_end c)
  from run_end show ?case by (cases rule: run.cases) auto
next
  case (run_turn st g sc st1 g1 tag narr st2 tags tr c')
  from run_turn.prems show ?case
  proof (cases rule: run.cases)
    case (run_turn sca st1a g1a narra st2a tra)
    from run_turn(2) run_turn.hyps(1) have e1: "sca = sc" "st1a = st1" "g1a = g1" by simp_all
    with run_turn(3) run_turn.hyps(2) have e2: "narra = narr" "st2a = st2" by simp_all
    from run_turn(4) e1 e2 have "run rb (st2, g1) tags tra c2" by simp
    then have "tr = tra \<and> c' = c2" by (rule run_turn.IH)
    with run_turn(1) e1 e2 show ?thesis by simp
  qed
qed

text \<open>
  C7. The engine is deterministic. Two runs from the same state and the same state of the
  generator (the one the seed gives), over the same sequence of chosen tags, record the
  same archetypes, the same scenes and the same narrations turn by turn, and end in the
  same state of the game and of the generator. Such a run exists for every sequence of
  tags when the generator keeps the library's promise.
\<close>
theorem engine_deterministic:
  "(run rb c tags tr1 c1 \<and> run rb c tags tr2 c2 \<longrightarrow> tr1 = tr2 \<and> c1 = c2)
   \<and> (rng_ok rb \<longrightarrow> (\<exists>tr c'. run rb c tags tr c'))"
proof (rule conjI)
  show "run rb c tags tr1 c1 \<and> run rb c tags tr2 c2 \<longrightarrow> tr1 = tr2 \<and> c1 = c2"
  proof (rule impI)
    assume "run rb c tags tr1 c1 \<and> run rb c tags tr2 c2"
    then have "run rb c tags tr1 c1" and "run rb c tags tr2 c2" by simp_all
    then show "tr1 = tr2 \<and> c1 = c2" by (rule run_unique)
  qed
  show "rng_ok rb \<longrightarrow> (\<exists>tr c'. run rb c tags tr c')"
  proof (rule impI)
    assume "rng_ok rb"
    then have "\<exists>tr c'. run rb (fst c, snd c) tags tr c'" by (rule run_total)
    then show "\<exists>tr c'. run rb c tags tr c'" by simp
  qed
qed

lemma pact_state:
  "apply_choice
     (StoryState_default
        \<lparr>seed := 42, chapter := 1, location := loc_intro_scene,
         flags := [(''betrayed'', FBool True), (''met_demon_lord'', FBool True),
                   (''allied'', FBool False), (''vow_revenge'', FBool False),
                   (''seeking_truth'', FBool True), (''demon_lord_name'', FStr ''Lilithe'')],
         history := [intro_history]\<rparr>) ''intro_pact''
   = (narr_intro_pact ''Lilithe'',
      StoryState_default
        \<lparr>seed := 42, chapter := 2, location := loc_intro_scene,
         flags := [(''betrayed'', FBool True), (''met_demon_lord'', FBool True),
                   (''allied'', FBool True), (''vow_revenge'', FBool False),
                   (''seeking_truth'', FBool True), (''demon_lord_name'', FStr ''Lilithe'')],
         history := [intro_history], trust_demon_lord := 30\<rparr>)"
  by (simp add: apply_choice_def Let_def mod_attr_def clamp_def dict_set_def demon_lord_def
      dict_get_def StoryState_default_def)

theorem engine_deterministic_witness:
  "rng_ok sample_rng
   \<and> run sample_rng (StoryState_default\<lparr>seed := 42\<rparr>, 42) [''intro_pact'']
       [(None, (text_intro_scene ''Lilithe'', choices_intro_scene), narr_intro_pact ''Lilithe'')]
       (StoryState_default
          \<lparr>seed := 42, chapter := 2, location := loc_intro_scene,
           flags := [(''betrayed'', FBool True), (''met_demon_lord'', FBool True),
                     (''allied'', FBool True), (''vow_revenge'', FBool False),
                     (''seeking_truth'', FBool True), (''demon_lord_name'', FStr ''Lilithe'')],
           history := [intro_history], trust_demon_lord := 30\<rparr>, snd (sample_rng 42 8))"
proof -
  let ?c = "(StoryState_default\<lparr>seed := 42\<rparr>, 42 :: nat)"
  note d = engine_deterministic [of sample_rng ?c "[''intro_pact'']"]
  from d rng_ok_sample obtain tr c' where r: "run sample_rng ?c [''intro_pact''] tr c'"
    by blast
  have a: "drawn_archetype sample_rng (StoryState_default\<lparr>seed := 42\<rparr>) 42 = None"
    by (simp add: drawn_archetype_def StoryState_default_def)
  from intro_render [OF sample_draw, of 42] pact_state run.run_end
  have "run sample_rng ?c [''intro_pact'']
       [(drawn_archetype sample_rng (StoryState_default\<lparr>seed := 42\<rparr>) 42,
         (text_intro_scene ''Lilithe'', choices_intro_scene), narr_intro_pact ''Lilithe'')]
       (StoryState_default
          \<lparr>seed := 42, chapter := 2, location := loc_intro_scene,
           flags := [(''betrayed'', FBool True), (''met_demon_lord'', FBool True),
                     (''allied'', FBool True), (''vow_revenge'', FBool False),
                     (''seeking_truth'', FBool True), (''demon_lord_name'', FStr ''Lilithe'')],
           history := [intro_history], trust_demon_lord := 30\<rparr>, snd (sample_rng 42 8))"
    by (rule run.run_turn)
  with a have e: "run sample_rng ?c [''intro_pact'']
       [(None, (text_intro_scene ''Lilithe'', choices_intro_scene), narr_intro_pact ''Lilithe'')]
       (StoryState_default
          \<lparr>seed := 42, chapter := 2, location := loc_intro_scene,
           flags := [(''betrayed'', FBool True), (''met_demon_lord'', FBool True),
                     (''allied'', FBool True), (''vow_revenge'', FBool False),
                     (''seeking_truth'', FBool True), (''demon_lord_name'', FStr ''Lilithe'')],
           history := [intro_history], trust_demon_lord := 30\<rparr>, snd (sample_rng 42 8))"
    by simp
  from d r e have "tr = [(None, (text_intro_scene ''Lilithe'', choices_intro_scene),
                          narr_intro_pact ''Lilithe'')]
       \<and> c' = (StoryState_default
          \<lparr>seed := 42, chapter := 2, location := loc_intro_scene,
           flags := [(''betrayed'', FBool True), (''met_demon_lord'', FBool True),
                     (''allied'', FBool True), (''vow_revenge'', FBool False),
                     (''seeking_truth'', FBool True), (''demon_lord_name'', FStr ''Lilithe'')],
           history := [intro_history], trust_demon_lord := 30\<rparr>, snd (sample_rng 42 8))"
    by blast
  with r have "run sample_rng ?c [''intro_pact'']
       [(None, (text_intro_scene ''Lilithe'', choices_intro_scene), narr_intro_pact ''Lilithe'')]
       (StoryState_default
          \<lparr>seed := 42, chapter := 2, location := loc_intro_scene,
           flags := [(''betrayed'', FBool True), (''met_demon_lord'', FBool True),
                     (''allied'', FBool True), (''vow_revenge'', FBool False),
                     (''seeking_truth'', FBool True), (''demon_lord_name'', FStr ''Lilithe'')],
           history := [intro_history], trust_demon_lord := 30\<rparr>, snd (sample_rng 42 8))"
    by simp
  with rng_ok_sample show ?thesis by (rule conjI)
qed
subsection \<open>The round trip through \<^verbatim>\<open>to_dict\<close> and \<^verbatim>\<open>from_dict\<close>\<close>

lemma those_as_str: "those (map as_str (map PStr xs)) = Some xs"
  by (induction xs) simp_all

lemma those_as_flags:
  "those (map (\<lambda>(k, v). case (as_str k, as_flag v) of
                              (Some s, Some f) \<Rightarrow> Some (s, f)
                            | _ \<Rightarrow> None) (map (\<lambda>(k, v). (PStr k, enc_flag v)) fl)) = Some fl"
proof (induction fl)
  case Nil
  show ?case by simp
next
  case (Cons p fl)
  obtain k v where p: "p = (k, v)" by (cases p)
  have "as_flag (enc_flag v) = Some v" by (cases v) simp_all
  with Cons p show ?case by simp
qed

lemma as_str_list_enc: "as_str_list (PList (map PStr xs)) = Some xs"
  by (simp only: as_str_list.simps those_as_str)

lemma as_flags_enc: "as_flags (PDict (map (\<lambda>(k, v). (PStr k, enc_flag v)) fl)) = Some fl"
  by (simp only: as_flags.simps those_as_flags)

lemma typed_to_dict: "typed (to_dict st) = Some st"
  by (simp add: typed_def to_dict_def as_str_list_enc as_flags_enc
      del: as_str_list.simps as_flags.simps)

lemma setdefault_present: "map_of d k = Some w \<Longrightarrow> setdefault k v d = d"
  by (simp add: setdefault_def)

lemma fill_to_dict:
  "fold (\<lambda>(k, v) d. setdefault k v d) (to_dict dflt) (to_dict st) = to_dict st"
proof -
  have m: "\<And>k v. (k, v) \<in> set (to_dict dflt) \<Longrightarrow> \<exists>w. map_of (to_dict st) k = Some w"
    by (auto simp add: to_dict_def)
  have "set ps \<subseteq> set (to_dict dflt) \<Longrightarrow> fold (\<lambda>(k, v) d. setdefault k v d) ps (to_dict st) = to_dict st" for ps
  proof (induction ps)
    case Nil
    show ?case by simp
  next
    case (Cons p ps)
    obtain k v where p: "p = (k, v)" by (cases p)
    with Cons.prems have "(k, v) \<in> set (to_dict dflt)" by simp
    then obtain w where "map_of (to_dict st) k = Some w" using m by blast
    then have "setdefault k v (to_dict st) = to_dict st" by (rule setdefault_present)
    with Cons p show ?case by simp
  qed
  then show ?thesis by simp
qed

lemma from_dict_to_dict: "from_dict (to_dict st) = Inr (to_dict st)"
proof -
  have i: "dict_get (to_dict st) ''inventory'' (PList []) = PList (map PStr (inventory st))"
    by (simp add: to_dict_def dict_get_def)
  have i': "dict_set ''inventory'' (PList (map PStr (inventory st))) (to_dict st) = to_dict st"
    by (simp add: to_dict_def dict_set_def)
  have f: "dict_get (to_dict st) ''flags'' (PDict [])
             = PDict (map (\<lambda>(k, v). (PStr k, enc_flag v)) (flags st))"
    by (simp add: to_dict_def dict_get_def)
  have f': "dict_set ''flags'' (PDict (map (\<lambda>(k, v). (PStr k, enc_flag v)) (flags st))) (to_dict st)
             = to_dict st"
    by (simp add: to_dict_def dict_set_def)
  have h: "dict_get (to_dict st) ''history'' (PList []) = PList (map PStr (history st))"
    by (simp add: to_dict_def dict_get_def)
  have h': "dict_set ''history'' (PList (map PStr (history st))) (to_dict st) = to_dict st"
    by (simp add: to_dict_def dict_set_def)
  have c: "StoryState_init (to_dict st) = Inr (to_dict st)"
    by (simp add: StoryState_init_def to_dict_def field_names_def dict_get_def)
  show ?thesis
    by (simp add: from_dict_def Let_def fill_to_dict i i' f f' h h' c)
qed

text \<open>
  C8. For every state, and so for every reachable one, \<^verbatim>\<open>from_dict\<close> of \<^verbatim>\<open>to_dict\<close> succeeds and
  returns an instance whose attributes are those of the state and whose record is the
  state; serialising that instance again gives the first serialisation.
\<close>
theorem round_trip:
  "from_dict (to_dict st) = Inr (to_dict st)
   \<and> typed (to_dict st) = Some st
   \<and> map_sum id (map_option to_dict \<circ> typed) (from_dict (to_dict st)) = Inr (Some (to_dict st))"
  by (simp add: from_dict_to_dict typed_to_dict)
subsection \<open>Defaults on deserialisation\<close>

lemma map_of_setdefault:
  "map_of (setdefault k v d) k'
     = (case map_of d k' of Some w \<Rightarrow> Some w | None \<Rightarrow> if k' = k then Some v else None)"
  by (auto simp add: setdefault_def map_add_def split: option.splits)

lemma map_of_fill:
  "map_of (fold (\<lambda>(k, v) d. setdefault k v d) ps d) k'
     = (case map_of d k' of Some w \<Rightarrow> Some w | None \<Rightarrow> map_of ps k')"
proof (induction ps arbitrary: d)
  case Nil
  show ?case by (simp split: option.splits)
next
  case (Cons p ps)
  obtain k v where p: "p = (k, v)" by (cases p)
  show ?case
    by (simp add: p Cons map_of_setdefault split: option.splits)
qed

lemma map_of_dict_set: "map_of (dict_set k v d) = (map_of d)(k \<mapsto> v)"
  by (simp add: dict_set_def update_conv')

lemma dict_get_dict_set:
  "dict_get (dict_set k v d) k' x = (if k' = k then v else dict_get d k' x)"
  by (simp add: dict_get_def map_of_dict_set)

lemma dict_get_fill:
  "dict_get (fold (\<lambda>(k, v) d. setdefault k v d) ps d) k' x
     = (case map_of d k' of Some w \<Rightarrow> w | None \<Rightarrow> dict_get ps k' x)"
  by (simp add: dict_get_def map_of_fill split: option.splits)

lemma keys_setdefault: "fst ` set (setdefault k v d) = insert k (fst ` set d)"
proof (cases "map_of d k")
  case None
  then show ?thesis by (simp add: setdefault_def)
next
  case (Some w)
  then have "(k, w) \<in> set d" by (rule map_of_SomeD)
  then have "k \<in> fst ` set d" by force
  with Some show ?thesis by (auto simp add: setdefault_def)
qed

lemma keys_fill:
  "fst ` set (fold (\<lambda>(k, v) d. setdefault k v d) ps d) = fst ` set ps \<union> fst ` set d"
proof (induction ps arbitrary: d)
  case Nil
  show ?case by simp
next
  case (Cons p ps)
  obtain k v where p: "p = (k, v)" by (cases p)
  show ?case by (simp add: p Cons keys_setdefault)
qed

lemma keys_dict_set: "fst ` set (dict_set k v d) = insert k (fst ` set d)"
proof -
  have "set (map fst (AList.update k v d)) = insert k (set (map fst d))"
    by (auto simp add: update_keys)
  then show ?thesis by (simp add: dict_set_def)
qed

lemma dict_get_filled:
  "map_of ps f = Some dflt
   \<Longrightarrow> dict_get (fold (\<lambda>(k, v) d. setdefault k v d) ps d) f x = dict_get d f dflt"
  by (simp add: dict_get_def map_of_fill split: option.splits)

lemma default_fields:
  "map_of (to_dict StoryState_default) ''name'' = Some (PStr ''Nameless'')"
  "map_of (to_dict StoryState_default) ''chapter'' = Some (PInt 0)"
  "map_of (to_dict StoryState_default) ''location'' = Some (PStr ''Demon Forest'')"
  "map_of (to_dict StoryState_default) ''health'' = Some (PInt 80)"
  "map_of (to_dict StoryState_default) ''power'' = Some (PInt 20)"
  "map_of (to_dict StoryState_default) ''morality'' = Some (PInt 0)"
  "map_of (to_dict StoryState_default) ''notoriety'' = Some (PInt 0)"
  "map_of (to_dict StoryState_default) ''trust_demon_lord'' = Some (PInt 10)"
  "map_of (to_dict StoryState_default) ''bond_demon_lord'' = Some (PInt 0)"
  "map_of (to_dict StoryState_default) ''inventory''
     = Some (PList [PStr ''Torn Cloak'', PStr ''Rusty Sword''])"
  "map_of (to_dict StoryState_default) ''flags'' = Some (PDict [])"
  "map_of (to_dict StoryState_default) ''history'' = Some (PList [])"
  "map_of (to_dict StoryState_default) ''seed'' = Some (PInt 0)"
  by (simp_all add: to_dict_def StoryState_default_def)

lemma default_keys: "fst ` set (to_dict StoryState_default) = set field_names"
  by (simp add: to_dict_def field_names_def)

lemma init_fields:
  "list_all (\<lambda>k. k \<in> set field_names) (map fst m) \<Longrightarrow>
   StoryState_init m =
     Inr [(''name'', dict_get m ''name'' (PStr ''Nameless'')),
          (''chapter'', dict_get m ''chapter'' (PInt 0)),
          (''location'', dict_get m ''location'' (PStr ''Demon Forest'')),
          (''health'', dict_get m ''health'' (PInt 80)),
          (''power'', dict_get m ''power'' (PInt 20)),
          (''morality'', dict_get m ''morality'' (PInt 0)),
          (''notoriety'', dict_get m ''notoriety'' (PInt 0)),
          (''trust_demon_lord'', dict_get m ''trust_demon_lord'' (PInt 10)),
          (''bond_demon_lord'', dict_get m ''bond_demon_lord'' (PInt 0)),
          (''inventory'', dict_get m ''inventory'' (PList [PStr ''Torn Cloak'', PStr ''Rusty Sword''])),
          (''flags'', dict_get m ''flags'' (PDict [])),
          (''history'', dict_get m ''history'' (PList [])),
          (''seed'', dict_get m ''seed'' (PInt 0))]"
  by (simp add: StoryState_init_def to_dict_def StoryState_default_def)

lemma from_dict_ok:
  assumes k: "\<forall>k \<in> fst ` set d. k \<in> set field_names"
    and i: "py_list (dict_get d ''inventory'' (PList [PStr ''Torn Cloak'', PStr ''Rusty Sword'']))
              = Inr items"
    and f: "py_dict (dict_get d ''flags'' (PDict [])) = Inr fls"
    and h: "py_list (dict_get d ''history'' (PList [])) = Inr lines"
  shows "from_dict d =
     Inr [(''name'', dict_get d ''name'' (PStr ''Nameless'')),
          (''chapter'', dict_get d ''chapter'' (PInt 0)),
          (''location'', dict_get d ''location'' (PStr ''Demon Forest'')),
          (''health'', dict_get d ''health'' (PInt 80)),
          (''power'', dict_get d ''power'' (PInt 20)),
          (''morality'', dict_get d ''morality'' (PInt 0)),
          (''notoriety'', dict_get d ''notoriety'' (PInt 0)),
          (''trust_demon_lord'', dict_get d ''trust_demon_lord'' (PInt 10)),
          (''bond_demon_lord'', dict_get d ''bond_demon_lord'' (PInt 0)),
          (''inventory'', PList items),
          (''flags'', PDict fls),
          (''history'', PList lines),
          (''seed'', dict_get d ''seed'' (PInt 0))]"
proof -
  let ?D = "to_dict StoryState_default"
  let ?d1 = "fold (\<lambda>(k, v) d. setdefault k v d) ?D d"
  let ?d2 = "dict_set ''inventory'' (PList items) ?d1"
  let ?d3 = "dict_set ''flags'' (PDict fls) ?d2"
  let ?d4 = "dict_set ''history'' (PList lines) ?d3"
  note g = default_fields [THEN dict_get_filled]
  have s1: "py_list (dict_get ?d1 ''inventory'' (PList [])) = Inr items"
    by (simp only: g i)
  have s2: "py_dict (dict_get ?d2 ''flags'' (PDict [])) = Inr fls"
    by (simp add: dict_get_dict_set g f)
  have s3: "py_list (dict_get ?d3 ''history'' (PList [])) = Inr lines"
    by (simp add: dict_get_dict_set g h)
  have "fst ` set ?d4 = set field_names \<union> fst ` set d"
    by (simp add: keys_dict_set keys_fill default_keys) (auto simp add: field_names_def)
  with k have ks: "list_all (\<lambda>k. k \<in> set field_names) (map fst ?d4)"
    by (auto simp add: list_all_iff)
  have s4: "StoryState_init ?d4 =
     Inr [(''name'', dict_get d ''name'' (PStr ''Nameless'')),
          (''chapter'', dict_get d ''chapter'' (PInt 0)),
          (''location'', dict_get d ''location'' (PStr ''Demon Forest'')),
          (''health'', dict_get d ''health'' (PInt 80)),
          (''power'', dict_get d ''power'' (PInt 20)),
          (''morality'', dict_get d ''morality'' (PInt 0)),
          (''notoriety'', dict_get d ''notoriety'' (PInt 0)),
          (''trust_demon_lord'', dict_get d ''trust_demon_lord'' (PInt 10)),
          (''bond_demon_lord'', dict_get d ''bond_demon_lord'' (PInt 0)),
          (''inventory'', PList items),
          (''flags'', PDict fls),
          (''history'', PList lines),
          (''seed'', dict_get d ''seed'' (PInt 0))]"
    by (simp add: init_fields [OF ks] dict_get_dict_set g)
  show ?thesis
    unfolding from_dict_def Let_def
    by (simp only: s1 s2 s3 s4 sum.case)
qed

lemma dict_get_absent: "k \<notin> fst ` set d \<Longrightarrow> dict_get d k x = x"
proof -
  assume "k \<notin> fst ` set d"
  then have "map_of d k = None" by (simp add: map_of_eq_None_iff)
  then show ?thesis by (simp add: dict_get_def)
qed

subsection \<open>Deserialisation with addresses\<close>

lemma alloc_all_zip:
  "alloc_all kvs s
     = (zip (map fst kvs) [length s ..< length s + length kvs], s @ map snd kvs)"
proof (induction kvs arbitrary: s)
  case Nil
  show ?case by simp
next
  case (Cons p kvs)
  obtain k v where p: "p = (k, v)" by (cases p)
  have "[length s ..< length s + Suc (length kvs)]
          = length s # [Suc (length s) ..< Suc (length s) + length kvs]"
    by (simp add: upt_rec)
  then show ?case by (simp add: p Cons alloc_def)
qed

lemma map_of_view: "map_of (view s d) k = map_option (\<lambda>a. s ! a) (map_of d k)"
  by (induction d) (auto simp add: view_def)

lemma read_dict_get:
  assumes "valid s d"
  shows "(s @ t) ! dict_get d k (length s + i) = dict_get (view s d) k (t ! i)"
proof (cases "map_of d k")
  case None
  then show ?thesis by (simp add: dict_get_def map_of_view)
next
  case (Some a)
  then have "(k, a) \<in> set d" by (rule map_of_SomeD)
  then have "a \<in> set (map snd d)" by force
  with assms have "a < length s" by (auto simp add: valid_def list_all_iff)
  with Some show ?thesis by (simp add: dict_get_def map_of_view nth_append)
qed


lemma default_addr:
  "map_of (zip (map fst (to_dict StoryState_default)) [n ..< n + 13]) ''name'' = Some n"
  "map_of (zip (map fst (to_dict StoryState_default)) [n ..< n + 13]) ''chapter'' = Some (n + 1)"
  "map_of (zip (map fst (to_dict StoryState_default)) [n ..< n + 13]) ''location'' = Some (n + 2)"
  "map_of (zip (map fst (to_dict StoryState_default)) [n ..< n + 13]) ''health'' = Some (n + 3)"
  "map_of (zip (map fst (to_dict StoryState_default)) [n ..< n + 13]) ''power'' = Some (n + 4)"
  "map_of (zip (map fst (to_dict StoryState_default)) [n ..< n + 13]) ''morality'' = Some (n + 5)"
  "map_of (zip (map fst (to_dict StoryState_default)) [n ..< n + 13]) ''notoriety'' = Some (n + 6)"
  "map_of (zip (map fst (to_dict StoryState_default)) [n ..< n + 13]) ''trust_demon_lord''
     = Some (n + 7)"
  "map_of (zip (map fst (to_dict StoryState_default)) [n ..< n + 13]) ''bond_demon_lord''
     = Some (n + 8)"
  "map_of (zip (map fst (to_dict StoryState_default)) [n ..< n + 13]) ''inventory'' = Some (n + 9)"
  "map_of (zip (map fst (to_dict StoryState_default)) [n ..< n + 13]) ''flags'' = Some (n + 10)"
  "map_of (zip (map fst (to_dict StoryState_default)) [n ..< n + 13]) ''history'' = Some (n + 11)"
  "map_of (zip (map fst (to_dict StoryState_default)) [n ..< n + 13]) ''seed'' = Some (n + 12)"
proof -
  have "[n ..< n + 13] = [n, n + 1, n + 2, n + 3, n + 4, n + 5, n + 6, n + 7, n + 8, n + 9,
                          n + 10, n + 11, n + 12]"
    by (simp add: upt_rec [of n] upt_rec [of "Suc _"] numeral_eq_Suc)
  then show
  "map_of (zip (map fst (to_dict StoryState_default)) [n ..< n + 13]) ''name'' = Some n"
  "map_of (zip (map fst (to_dict StoryState_default)) [n ..< n + 13]) ''chapter'' = Some (n + 1)"
  "map_of (zip (map fst (to_dict StoryState_default)) [n ..< n + 13]) ''location'' = Some (n + 2)"
  "map_of (zip (map fst (to_dict StoryState_default)) [n ..< n + 13]) ''health'' = Some (n + 3)"
  "map_of (zip (map fst (to_dict StoryState_default)) [n ..< n + 13]) ''power'' = Some (n + 4)"
  "map_of (zip (map fst (to_dict StoryState_default)) [n ..< n + 13]) ''morality'' = Some (n + 5)"
  "map_of (zip (map fst (to_dict StoryState_default)) [n ..< n + 13]) ''notoriety'' = Some (n + 6)"
  "map_of (zip (map fst (to_dict StoryState_default)) [n ..< n + 13]) ''trust_demon_lord''
     = Some (n + 7)"
  "map_of (zip (map fst (to_dict StoryState_default)) [n ..< n + 13]) ''bond_demon_lord''
     = Some (n + 8)"
  "map_of (zip (map fst (to_dict StoryState_default)) [n ..< n + 13]) ''inventory'' = Some (n + 9)"
  "map_of (zip (map fst (to_dict StoryState_default)) [n ..< n + 13]) ''flags'' = Some (n + 10)"
  "map_of (zip (map fst (to_dict StoryState_default)) [n ..< n + 13]) ''history'' = Some (n + 11)"
  "map_of (zip (map fst (to_dict StoryState_default)) [n ..< n + 13]) ''seed'' = Some (n + 12)"
    by (simp_all add: to_dict_def)
qed

lemma map_of_filled:
  "map_of ps f = Some dflt
   \<Longrightarrow> map_of (fold (\<lambda>(k, v) d. setdefault k v d) ps d) f = Some (dict_get d f dflt)"
  by (simp add: dict_get_def map_of_fill split: option.splits)

lemma relist_step:
  "py_list ((s @ [PList []]) ! dict_get d k (length s)) = Inr items
   \<Longrightarrow> relist k d s = Inr (dict_set k (Suc (length s)) d, s @ [PList [], PList items])"
  by (simp add: relist_def alloc_def)

lemma redict_step:
  "py_dict ((s @ [PDict []]) ! dict_get d k (length s)) = Inr fls
   \<Longrightarrow> redict k d s = Inr (dict_set k (Suc (length s)) d, s @ [PDict [], PDict fls])"
  by (simp add: redict_def alloc_def)

lemma default_value:
  "(map snd (to_dict StoryState_default) @ t) ! 0 = PStr ''Nameless''"
  "(map snd (to_dict StoryState_default) @ t) ! 1 = PInt 0"
  "(map snd (to_dict StoryState_default) @ t) ! 2 = PStr ''Demon Forest''"
  "(map snd (to_dict StoryState_default) @ t) ! 3 = PInt 80"
  "(map snd (to_dict StoryState_default) @ t) ! 4 = PInt 20"
  "(map snd (to_dict StoryState_default) @ t) ! 5 = PInt 0"
  "(map snd (to_dict StoryState_default) @ t) ! 6 = PInt 0"
  "(map snd (to_dict StoryState_default) @ t) ! 7 = PInt 10"
  "(map snd (to_dict StoryState_default) @ t) ! 8 = PInt 0"
  "(map snd (to_dict StoryState_default) @ t) ! 9 = PList [PStr ''Torn Cloak'', PStr ''Rusty Sword'']"
  "(map snd (to_dict StoryState_default) @ t) ! 10 = PDict []"
  "(map snd (to_dict StoryState_default) @ t) ! 11 = PList []"
  "(map snd (to_dict StoryState_default) @ t) ! 12 = PInt 0"
  "(map snd (to_dict StoryState_default) @ x # t) ! 13 = x"
  "(map snd (to_dict StoryState_default) @ x0 # x # t) ! 14 = x"
  "(map snd (to_dict StoryState_default) @ x0 # x1 # x2 # x # t) ! 16 = x"
  "(map snd (to_dict StoryState_default) @ x0 # x1 # x2 # x3 # x4 # x # t) ! 18 = x"
  by (simp_all add: to_dict_def StoryState_default_def)

lemma default_length: "length (to_dict StoryState_default) = 13"
  by (simp add: to_dict_def)

lemma init_attrs_present:
  assumes "map_of kw ''name'' = Some a0" "map_of kw ''chapter'' = Some a1"
    "map_of kw ''location'' = Some a2" "map_of kw ''health'' = Some a3"
    "map_of kw ''power'' = Some a4" "map_of kw ''morality'' = Some a5"
    "map_of kw ''notoriety'' = Some a6" "map_of kw ''trust_demon_lord'' = Some a7"
    "map_of kw ''bond_demon_lord'' = Some a8" "map_of kw ''inventory'' = Some a9"
    "map_of kw ''flags'' = Some a10" "map_of kw ''history'' = Some a11"
    "map_of kw ''seed'' = Some a12"
  shows "init_attrs (to_dict StoryState_default) kw t
     = ([(''name'', a0), (''chapter'', a1), (''location'', a2), (''health'', a3),
         (''power'', a4), (''morality'', a5), (''notoriety'', a6),
         (''trust_demon_lord'', a7), (''bond_demon_lord'', a8), (''inventory'', a9),
         (''flags'', a10), (''history'', a11), (''seed'', a12)], t)"
  by (simp add: to_dict_def assms)

lemma from_dict_at_ok:
  assumes v: "valid s d"
    and k: "fst ` set d \<subseteq> set field_names"
    and i: "py_list (dict_get (view s d) ''inventory''
              (PList [PStr ''Torn Cloak'', PStr ''Rusty Sword''])) = Inr items"
    and f: "py_dict (dict_get (view s d) ''flags'' (PDict [])) = Inr fls"
    and h: "py_list (dict_get (view s d) ''history'' (PList [])) = Inr lines"
  shows "from_dict_at d s =
     Inr ([(''name'', dict_get d ''name'' (length s)),
           (''chapter'', dict_get d ''chapter'' (length s + 1)),
           (''location'', dict_get d ''location'' (length s + 2)),
           (''health'', dict_get d ''health'' (length s + 3)),
           (''power'', dict_get d ''power'' (length s + 4)),
           (''morality'', dict_get d ''morality'' (length s + 5)),
           (''notoriety'', dict_get d ''notoriety'' (length s + 6)),
           (''trust_demon_lord'', dict_get d ''trust_demon_lord'' (length s + 7)),
           (''bond_demon_lord'', dict_get d ''bond_demon_lord'' (length s + 8)),
           (''inventory'', length s + 14),
           (''flags'', length s + 16),
           (''history'', length s + 18),
           (''seed'', dict_get d ''seed'' (length s + 12))],
          s @ map snd (to_dict StoryState_default)
            @ [PList [], PList items, PDict [], PDict fls, PList [], PList lines])"
proof -
  let ?n = "length s"
  let ?D = "to_dict StoryState_default"
  let ?V = "map snd ?D"
  let ?Z = "zip (map fst ?D) [?n ..< ?n + 13]"
  let ?d1 = "fold (\<lambda>(k, a) d. setdefault k a d) ?Z d"
  let ?d2 = "dict_set ''inventory'' (?n + 14) ?d1"
  let ?d3 = "dict_set ''flags'' (?n + 16) ?d2"
  let ?d4 = "dict_set ''history'' (?n + 18) ?d3"
  note g = default_addr [of ?n, THEN dict_get_filled]
  note m = default_addr [of ?n, THEN map_of_filled]
  note r = read_dict_get [OF v]
  have a: "alloc_all ?D s = (?Z, s @ ?V)"
    by (simp add: alloc_all_zip default_length)
  have r0: "(s @ t) ! dict_get d k' ?n = dict_get (view s d) k' (t ! 0)" for t k'
    using r [of t k' 0] by simp
  have s1: "relist ''inventory'' ?d1 (s @ ?V) = Inr (?d2, s @ ?V @ [PList [], PList items])"
  proof -
    have "py_list (((s @ ?V) @ [PList []]) ! dict_get ?d1 ''inventory'' (length (s @ ?V)))
            = Inr items"
      by (simp add: g r default_value i)
    then have "relist ''inventory'' ?d1 (s @ ?V)
            = Inr (dict_set ''inventory'' (Suc (length (s @ ?V))) ?d1,
                   (s @ ?V) @ [PList [], PList items])"
      by (rule relist_step)
    then show ?thesis by (simp add: default_length ac_simps)
  qed
  have s2: "redict ''flags'' ?d2 (s @ ?V @ [PList [], PList items])
              = Inr (?d3, s @ ?V @ [PList [], PList items, PDict [], PDict fls])"
  proof -
    let ?s = "s @ ?V @ [PList [], PList items]"
    have "py_dict ((?s @ [PDict []]) ! dict_get ?d2 ''flags'' (length ?s)) = Inr fls"
      by (simp add: dict_get_dict_set g r default_value f)
    then have "redict ''flags'' ?d2 ?s
            = Inr (dict_set ''flags'' (Suc (length ?s)) ?d2, ?s @ [PDict [], PDict fls])"
      by (rule redict_step)
    then show ?thesis by (simp add: default_length ac_simps)
  qed
  have s3: "relist ''history'' ?d3 (s @ ?V @ [PList [], PList items, PDict [], PDict fls])
              = Inr (?d4, s @ ?V @ [PList [], PList items, PDict [], PDict fls,
                                    PList [], PList lines])"
  proof -
    let ?s = "s @ ?V @ [PList [], PList items, PDict [], PDict fls]"
    have "py_list ((?s @ [PList []]) ! dict_get ?d3 ''history'' (length ?s)) = Inr lines"
      by (simp add: dict_get_dict_set g r default_value h)
    then have "relist ''history'' ?d3 ?s
            = Inr (dict_set ''history'' (Suc (length ?s)) ?d3, ?s @ [PList [], PList lines])"
      by (rule relist_step)
    then show ?thesis by (simp add: default_length ac_simps)
  qed
  have "fst ` set ?Z = set field_names"
    by (simp add: to_dict_def field_names_def upt_rec [of ?n] upt_rec [of "Suc _"] numeral_eq_Suc)
  then have "fst ` set ?d4 = set field_names \<union> fst ` set d"
    by (simp add: keys_dict_set keys_fill) (auto simp add: field_names_def)
  with k have ks: "list_all (\<lambda>k. k \<in> set field_names) (map fst ?d4)"
    by (auto simp add: list_all_iff)
  have m4: "map_of ?d4 = (map_of ?d1)(''inventory'' \<mapsto> ?n + 14, ''flags'' \<mapsto> ?n + 16,
                                       ''history'' \<mapsto> ?n + 18)"
    by (simp add: map_of_dict_set)
  have s4: "StoryState_init_at ?d4 t =
     Inr ([(''name'', dict_get d ''name'' ?n),
           (''chapter'', dict_get d ''chapter'' (?n + 1)),
           (''location'', dict_get d ''location'' (?n + 2)),
           (''health'', dict_get d ''health'' (?n + 3)),
           (''power'', dict_get d ''power'' (?n + 4)),
           (''morality'', dict_get d ''morality'' (?n + 5)),
           (''notoriety'', dict_get d ''notoriety'' (?n + 6)),
           (''trust_demon_lord'', dict_get d ''trust_demon_lord'' (?n + 7)),
           (''bond_demon_lord'', dict_get d ''bond_demon_lord'' (?n + 8)),
           (''inventory'', ?n + 14),
           (''flags'', ?n + 16),
           (''history'', ?n + 18),
           (''seed'', dict_get d ''seed'' (?n + 12))], t)" for t
  proof -
    have "init_attrs ?D ?d4 t =
       ([(''name'', dict_get d ''name'' ?n),
           (''chapter'', dict_get d ''chapter'' (?n + 1)),
           (''location'', dict_get d ''location'' (?n + 2)),
           (''health'', dict_get d ''health'' (?n + 3)),
           (''power'', dict_get d ''power'' (?n + 4)),
           (''morality'', dict_get d ''morality'' (?n + 5)),
           (''notoriety'', dict_get d ''notoriety'' (?n + 6)),
           (''trust_demon_lord'', dict_get d ''trust_demon_lord'' (?n + 7)),
           (''bond_demon_lord'', dict_get d ''bond_demon_lord'' (?n + 8)),
           (''inventory'', ?n + 14),
           (''flags'', ?n + 16),
           (''history'', ?n + 18),
           (''seed'', dict_get d ''seed'' (?n + 12))], t)"
      by (rule init_attrs_present) (simp_all add: m4 m)
    with ks show ?thesis by (simp add: StoryState_init_at_def)
  qed
  show ?thesis
    unfolding from_dict_at_def Let_def a
    by (simp only: prod.case s1 s2 s3 s4 sum.case)
qed
subsection \<open>Defaults and new containers on deserialisation\<close>

lemma keys_view: "fst ` set (view s ds) = fst ` set ds"
  by (force simp add: view_def)

lemma view_result:
  assumes v: "valid s ds"
  shows "view (s @ map snd (to_dict StoryState_default)
                 @ [PList [], PList items, PDict [], PDict fls, PList [], PList lines])
          [(''name'', dict_get ds ''name'' (length s)),
           (''chapter'', dict_get ds ''chapter'' (length s + 1)),
           (''location'', dict_get ds ''location'' (length s + 2)),
           (''health'', dict_get ds ''health'' (length s + 3)),
           (''power'', dict_get ds ''power'' (length s + 4)),
           (''morality'', dict_get ds ''morality'' (length s + 5)),
           (''notoriety'', dict_get ds ''notoriety'' (length s + 6)),
           (''trust_demon_lord'', dict_get ds ''trust_demon_lord'' (length s + 7)),
           (''bond_demon_lord'', dict_get ds ''bond_demon_lord'' (length s + 8)),
           (''inventory'', length s + 14),
           (''flags'', length s + 16),
           (''history'', length s + 18),
           (''seed'', dict_get ds ''seed'' (length s + 12))]
     = [(''name'', dict_get (view s ds) ''name'' (PStr ''Nameless'')),
        (''chapter'', dict_get (view s ds) ''chapter'' (PInt 0)),
        (''location'', dict_get (view s ds) ''location'' (PStr ''Demon Forest'')),
        (''health'', dict_get (view s ds) ''health'' (PInt 80)),
        (''power'', dict_get (view s ds) ''power'' (PInt 20)),
        (''morality'', dict_get (view s ds) ''morality'' (PInt 0)),
        (''notoriety'', dict_get (view s ds) ''notoriety'' (PInt 0)),
        (''trust_demon_lord'', dict_get (view s ds) ''trust_demon_lord'' (PInt 10)),
        (''bond_demon_lord'', dict_get (view s ds) ''bond_demon_lord'' (PInt 0)),
        (''inventory'', PList items),
        (''flags'', PDict fls),
        (''history'', PList lines),
        (''seed'', dict_get (view s ds) ''seed'' (PInt 0))]"
proof -
  note r = read_dict_get [OF v]
  have r0: "(s @ t) ! dict_get ds k' (length s) = dict_get (view s ds) k' (t ! 0)" for t k'
    using r [of t k' 0] by simp
  have r1: "(s @ t) ! dict_get ds k' (Suc (length s)) = dict_get (view s ds) k' (t ! 1)" for t k'
    using r [of t k' 1] by simp
  have r2: "(s @ t) ! dict_get ds k' (Suc (Suc (length s))) = dict_get (view s ds) k' (t ! 2)"
    for t k'
    using r [of t k' 2] by simp
  have d1: "(map snd (to_dict StoryState_default) @ t) ! Suc 0 = PInt 0" for t
    using default_value(2) [of t] by simp
  have n: "(s @ t) ! (length s + j) = t ! j" for t j
    by (simp add: nth_append)
  show ?thesis
    unfolding view_def [of "s @ _"]
    by (simp add: r r0 r1 r2 n d1 default_value)
qed

lemma absent_defaults:
  assumes i: "py_list (dict_get d ''inventory'' (PList [PStr ''Torn Cloak'', PStr ''Rusty Sword'']))
           = Inr items"
    and l: "py_dict (dict_get d ''flags'' (PDict [])) = Inr fls"
    and h: "py_list (dict_get d ''history'' (PList [])) = Inr lines"
    and a: "f \<notin> fst ` set d"
  shows "map_of [(''name'', dict_get d ''name'' (PStr ''Nameless'')),
              (''chapter'', dict_get d ''chapter'' (PInt 0)),
              (''location'', dict_get d ''location'' (PStr ''Demon Forest'')),
              (''health'', dict_get d ''health'' (PInt 80)),
              (''power'', dict_get d ''power'' (PInt 20)),
              (''morality'', dict_get d ''morality'' (PInt 0)),
              (''notoriety'', dict_get d ''notoriety'' (PInt 0)),
              (''trust_demon_lord'', dict_get d ''trust_demon_lord'' (PInt 10)),
              (''bond_demon_lord'', dict_get d ''bond_demon_lord'' (PInt 0)),
              (''inventory'', PList items),
              (''flags'', PDict fls),
              (''history'', PList lines),
              (''seed'', dict_get d ''seed'' (PInt 0))] f
        = map_of (to_dict StoryState_default) f"
proof -
  have i': "f = ''inventory'' \<Longrightarrow> PList items = PList [PStr ''Torn Cloak'', PStr ''Rusty Sword'']"
    using i a by (simp add: dict_get_absent)
  have l': "f = ''flags'' \<Longrightarrow> PDict fls = PDict []"
    using l a by (simp add: dict_get_absent)
  have h': "f = ''history'' \<Longrightarrow> PList lines = PList []"
    using h a by (simp add: dict_get_absent)
  have s: "\<And>k x. f = k \<Longrightarrow> dict_get d k x = x"
    using a by (simp add: dict_get_absent)
  show ?thesis
    using i' l' h' s by (simp add: to_dict_def StoryState_default_def)
qed

text \<open>
  C9. For every input mapping whose keys are all fields of the state record and whose
  values for \<^verbatim>\<open>inventory\<close>, \<^verbatim>\<open>flags\<close> and \<^verbatim>\<open>history\<close>, or their defaults, are accepted by
  \<^verbatim>\<open>list()\<close> and \<^verbatim>\<open>dict()\<close>, \<^verbatim>\<open>from_dict\<close> succeeds: a field the mapping holds keeps the mapping's
  value, a field absent from it takes the value of a default-constructed record, and
  \<^verbatim>\<open>inventory\<close>, \<^verbatim>\<open>flags\<close> and \<^verbatim>\<open>history\<close> are what \<^verbatim>\<open>list()\<close>, \<^verbatim>\<open>dict()\<close> and \<^verbatim>\<open>list()\<close> make of
  them. With addresses, in whatever store the mapping lives: the three containers of the
  instance are objects allocated during the call, at three different addresses past
  every object that existed before, and the objects that existed before are unchanged.
  A mapping with a key that is not a field fails in the constructor, as the
  counterexample shows.
\<close>
theorem from_dict_defaults:
  assumes "fst ` set d \<subseteq> set field_names"
    and "py_list (dict_get d ''inventory'' (PList [PStr ''Torn Cloak'', PStr ''Rusty Sword'']))
           = Inr items"
    and "py_dict (dict_get d ''flags'' (PDict [])) = Inr fls"
    and "py_list (dict_get d ''history'' (PList [])) = Inr lines"
  shows "\<exists>obj. from_dict d = Inr obj
     \<and> obj = [(''name'', dict_get d ''name'' (PStr ''Nameless'')),
              (''chapter'', dict_get d ''chapter'' (PInt 0)),
              (''location'', dict_get d ''location'' (PStr ''Demon Forest'')),
              (''health'', dict_get d ''health'' (PInt 80)),
              (''power'', dict_get d ''power'' (PInt 20)),
              (''morality'', dict_get d ''morality'' (PInt 0)),
              (''notoriety'', dict_get d ''notoriety'' (PInt 0)),
              (''trust_demon_lord'', dict_get d ''trust_demon_lord'' (PInt 10)),
              (''bond_demon_lord'', dict_get d ''bond_demon_lord'' (PInt 0)),
              (''inventory'', PList items),
              (''flags'', PDict fls),
              (''history'', PList lines),
              (''seed'', dict_get d ''seed'' (PInt 0))]
     \<and> (\<forall>f. f \<notin> fst ` set d \<longrightarrow> map_of obj f = map_of (to_dict StoryState_default) f)
     \<and> (\<forall>s ds. valid s ds \<and> view s ds = d \<longrightarrow>
          (\<exists>attrs s'. from_dict_at ds s = Inr (attrs, s')
             \<and> view s' attrs = obj
             \<and> take (length s) s' = s
             \<and> length s' = length s + 19
             \<and> map_of attrs ''inventory'' = Some (length s + 14)
             \<and> map_of attrs ''flags'' = Some (length s + 16)
             \<and> map_of attrs ''history'' = Some (length s + 18)))"
proof -
  let ?obj = "[(''name'', dict_get d ''name'' (PStr ''Nameless'')),
              (''chapter'', dict_get d ''chapter'' (PInt 0)),
              (''location'', dict_get d ''location'' (PStr ''Demon Forest'')),
              (''health'', dict_get d ''health'' (PInt 80)),
              (''power'', dict_get d ''power'' (PInt 20)),
              (''morality'', dict_get d ''morality'' (PInt 0)),
              (''notoriety'', dict_get d ''notoriety'' (PInt 0)),
              (''trust_demon_lord'', dict_get d ''trust_demon_lord'' (PInt 10)),
              (''bond_demon_lord'', dict_get d ''bond_demon_lord'' (PInt 0)),
              (''inventory'', PList items),
              (''flags'', PDict fls),
              (''history'', PList lines),
              (''seed'', dict_get d ''seed'' (PInt 0))]"
  have A: "from_dict d = Inr ?obj"
  proof (rule from_dict_ok)
    from assms(1) show "\<forall>k \<in> fst ` set d. k \<in> set field_names" by blast
  qed (rule assms)+
  have B: "\<forall>f. f \<notin> fst ` set d \<longrightarrow> map_of ?obj f = map_of (to_dict StoryState_default) f"
    using absent_defaults [OF assms(2) assms(3) assms(4)] by blast
  have C: "\<exists>attrs s'. from_dict_at ds s = Inr (attrs, s')
             \<and> view s' attrs = ?obj
             \<and> take (length s) s' = s
             \<and> length s' = length s + 19
             \<and> map_of attrs ''inventory'' = Some (length s + 14)
             \<and> map_of attrs ''flags'' = Some (length s + 16)
             \<and> map_of attrs ''history'' = Some (length s + 18)"
    if v: "valid s ds" and e: "view s ds = d" for s ds
  proof -
    let ?attrs = "[(''name'', dict_get ds ''name'' (length s)),
           (''chapter'', dict_get ds ''chapter'' (length s + 1)),
           (''location'', dict_get ds ''location'' (length s + 2)),
           (''health'', dict_get ds ''health'' (length s + 3)),
           (''power'', dict_get ds ''power'' (length s + 4)),
           (''morality'', dict_get ds ''morality'' (length s + 5)),
           (''notoriety'', dict_get ds ''notoriety'' (length s + 6)),
           (''trust_demon_lord'', dict_get ds ''trust_demon_lord'' (length s + 7)),
           (''bond_demon_lord'', dict_get ds ''bond_demon_lord'' (length s + 8)),
           (''inventory'', length s + 14),
           (''flags'', length s + 16),
           (''history'', length s + 18),
           (''seed'', dict_get ds ''seed'' (length s + 12))]"
    let ?s' = "s @ map snd (to_dict StoryState_default)
                 @ [PList [], PList items, PDict [], PDict fls, PList [], PList lines]"
    from assms(1) e have k: "fst ` set ds \<subseteq> set field_names"
      using keys_view [of s ds] by simp
    have 1: "from_dict_at ds s = Inr (?attrs, ?s')"
      using v k assms(2) assms(3) assms(4) unfolding e [symmetric] by (rule from_dict_at_ok)
    have 2: "view ?s' ?attrs = ?obj"
      unfolding e [symmetric] using v by (rule view_result)
    have 3: "take (length s) ?s' = s" by simp
    have 4: "length ?s' = length s + 19" by (simp add: default_length)
    have 5: "map_of ?attrs ''inventory'' = Some (length s + 14)"
      "map_of ?attrs ''flags'' = Some (length s + 16)"
      "map_of ?attrs ''history'' = Some (length s + 18)"
      by simp_all
    from 1 2 3 4 5 show ?thesis by blast
  qed
  from A B C show ?thesis by blast
qed

lemma old_save_flags:
  "py_dict (dict_get old_save ''flags'' (PDict [])) = Inr [(PStr ''allied'', PBool True)]"
  by (simp add: old_save_def dict_get_def py_pair_def)

theorem from_dict_defaults_witness:
  "fst ` set old_save \<subseteq> set field_names
   \<and> py_list (dict_get old_save ''inventory'' (PList [PStr ''Torn Cloak'', PStr ''Rusty Sword'']))
       = Inr [PStr ''Torn Cloak'', PStr ''Rusty Sword'']
   \<and> py_dict (dict_get old_save ''flags'' (PDict [])) = Inr [(PStr ''allied'', PBool True)]
   \<and> py_list (dict_get old_save ''history'' (PList [])) = Inr []
   \<and> from_dict old_save
       = Inr [(''name'', PStr ''Ada''),
              (''chapter'', PInt 0),
              (''location'', PStr ''Demon Forest''),
              (''health'', PInt 55),
              (''power'', PInt 20),
              (''morality'', PInt 0),
              (''notoriety'', PInt 0),
              (''trust_demon_lord'', PInt 10),
              (''bond_demon_lord'', PInt 0),
              (''inventory'', PList [PStr ''Torn Cloak'', PStr ''Rusty Sword'']),
              (''flags'', PDict [(PStr ''allied'', PBool True)]),
              (''history'', PList []),
              (''seed'', PInt 0)]
   \<and> valid old_store old_refs \<and> view old_store old_refs = old_save
   \<and> (\<exists>attrs s'. from_dict_at old_refs old_store = Inr (attrs, s')
         \<and> view s' attrs
             = [(''name'', PStr ''Ada''),
                (''chapter'', PInt 0),
                (''location'', PStr ''Demon Forest''),
                (''health'', PInt 55),
                (''power'', PInt 20),
                (''morality'', PInt 0),
                (''notoriety'', PInt 0),
                (''trust_demon_lord'', PInt 10),
                (''bond_demon_lord'', PInt 0),
                (''inventory'', PList [PStr ''Torn Cloak'', PStr ''Rusty Sword'']),
                (''flags'', PDict [(PStr ''allied'', PBool True)]),
                (''history'', PList []),
                (''seed'', PInt 0)]
         \<and> take 3 s' = old_store
         \<and> map_of attrs ''inventory'' = Some 17
         \<and> map_of attrs ''flags'' = Some 19
         \<and> map_of attrs ''history'' = Some 21)"
proof -
  let ?obj = "[(''name'', PStr ''Ada''),
              (''chapter'', PInt 0),
              (''location'', PStr ''Demon Forest''),
              (''health'', PInt 55),
              (''power'', PInt 20),
              (''morality'', PInt 0),
              (''notoriety'', PInt 0),
              (''trust_demon_lord'', PInt 10),
              (''bond_demon_lord'', PInt 0),
              (''inventory'', PList [PStr ''Torn Cloak'', PStr ''Rusty Sword'']),
              (''flags'', PDict [(PStr ''allied'', PBool True)]),
              (''history'', PList []),
              (''seed'', PInt 0)]"
  have k: "fst ` set old_save \<subseteq> set field_names"
    by (simp add: old_save_def field_names_def)
  have i: "py_list (dict_get old_save ''inventory'' (PList [PStr ''Torn Cloak'', PStr ''Rusty Sword'']))
       = Inr [PStr ''Torn Cloak'', PStr ''Rusty Sword'']"
    by (simp add: old_save_def dict_get_def)
  have h: "py_list (dict_get old_save ''history'' (PList [])) = Inr []"
    by (simp add: old_save_def dict_get_def)
  have g: "dict_get old_save ''name'' x = PStr ''Ada''" "dict_get old_save ''health'' x = PInt 55"
    "dict_get old_save ''chapter'' x = x" "dict_get old_save ''location'' x = x"
    "dict_get old_save ''power'' x = x" "dict_get old_save ''morality'' x = x"
    "dict_get old_save ''notoriety'' x = x" "dict_get old_save ''trust_demon_lord'' x = x"
    "dict_get old_save ''bond_demon_lord'' x = x" "dict_get old_save ''seed'' x = x" for x
    by (simp_all add: old_save_def dict_get_def)
  have v: "valid old_store old_refs"
    by (simp add: valid_def old_store_def old_refs_def)
  have e: "view old_store old_refs = old_save"
    by (simp add: view_def old_store_def old_refs_def old_save_def)
  have n: "length old_store = 3" by (simp add: old_store_def)
  from from_dict_defaults [OF k i old_save_flags h] obtain obj where
    a: "from_dict old_save = Inr obj"
    and b: "obj = ?obj"
    and c: "\<forall>s ds. valid s ds \<and> view s ds = old_save \<longrightarrow>
          (\<exists>attrs s'. from_dict_at ds s = Inr (attrs, s')
             \<and> view s' attrs = obj
             \<and> take (length s) s' = s
             \<and> length s' = length s + 19
             \<and> map_of attrs ''inventory'' = Some (length s + 14)
             \<and> map_of attrs ''flags'' = Some (length s + 16)
             \<and> map_of attrs ''history'' = Some (length s + 18))"
    by (auto simp add: g)
  from c v e obtain attrs s' where
    "from_dict_at old_refs old_store = Inr (attrs, s')"
    "view s' attrs = obj"
    "take (length old_store) s' = old_store"
    "map_of attrs ''inventory'' = Some (length old_store + 14)"
    "map_of attrs ''flags'' = Some (length old_store + 16)"
    "map_of attrs ''history'' = Some (length old_store + 18)"
    by blast
  then have d: "\<exists>attrs s'. from_dict_at old_refs old_store = Inr (attrs, s')
         \<and> view s' attrs = ?obj
         \<and> take 3 s' = old_store
         \<and> map_of attrs ''inventory'' = Some 17
         \<and> map_of attrs ''flags'' = Some 19
         \<and> map_of attrs ''history'' = Some 21"
    by (simp add: n b)
  from a b have a': "from_dict old_save = Inr ?obj" by simp
  from k i old_save_flags h a' v e d show ?thesis by (intro conjI)
qed

theorem from_dict_defaults_counterexample:
  "from_dict [(''name'', PStr ''Ada''), (''difficulty'', PInt 3)] = Inl TypeError"
  by (simp add: from_dict_def Let_def to_dict_def StoryState_default_def setdefault_def
      dict_get_def dict_set_def StoryState_init_def field_names_def)

end
